theory Spec2Isabelle
  imports Complex_Main "HOL-Library.Char_ord" "HOL-Library.List_Lexorder"
begin

section \<open>The country lookup service of gotogether-api\<close>

text \<open>
  A shallow embedding of \<^verbatim>\<open>src/countries/countries.service.ts\<close> (class
  \<^verbatim>\<open>CountriesService\<close>) and of the route handler \<^verbatim>\<open>getCountries\<close> of
  \<^verbatim>\<open>countries.controller.ts\<close>. The service reads a cache, a relational store and a
  hard-coded fallback table; the cache and the store are an explicit state that every
  operation takes and returns, exceptions are the left summand of the result, and the
  clock reading \<^verbatim>\<open>new Date().toISOString()\<close> is a parameter \<open>now\<close>.
\<close>

subsection \<open>Strings\<close>

text \<open>
  Strings are byte lists. \<^verbatim>\<open>toLowerCase\<close> and \<^verbatim>\<open>toUpperCase\<close> are embedded on the ASCII
  letters and leave every other byte as it is. On strings of ASCII characters this is
  the case mapping of JavaScript; the case mapping of characters beyond ASCII is outside
  the embedding, and the statements that depend on the case mapping are made for
  strings of ASCII characters.
\<close>

definition toLowerCase_char :: "char \<Rightarrow> char" where
  "toLowerCase_char c =
     (if CHR ''A'' \<le> c \<and> c \<le> CHR ''Z'' then char_of (of_char c + (32::nat)) else c)"

definition toUpperCase_char :: "char \<Rightarrow> char" where
  "toUpperCase_char c =
     (if CHR ''a'' \<le> c \<and> c \<le> CHR ''z'' then char_of (of_char c - (32::nat)) else c)"

definition toLowerCase :: "string \<Rightarrow> string" where
  "toLowerCase s = map toLowerCase_char s"

definition toUpperCase :: "string \<Rightarrow> string" where
  "toUpperCase s = map toUpperCase_char s"

text \<open>\<^verbatim>\<open>hay.includes(needle)\<close>: \<open>needle\<close> occurs in \<open>hay\<close> as a contiguous run.\<close>

fun startsWith :: "string \<Rightarrow> string \<Rightarrow> bool" where
  "startsWith _ [] = True"
| "startsWith [] (_ # _) = False"
| "startsWith (x # xs) (y # ys) = (x = y \<and> startsWith xs ys)"

fun includes_str :: "string \<Rightarrow> string \<Rightarrow> bool" where
  "includes_str [] needle = (needle = [])"
| "includes_str (x # xs) needle = (startsWith (x # xs) needle \<or> includes_str xs needle)"

text \<open>\<^verbatim>\<open>xs.slice(start, end)\<close>: a negative index counts from the end, and both
  indices are clamped to the array.\<close>

definition slice :: "'a list \<Rightarrow> int \<Rightarrow> int \<Rightarrow> 'a list" where
  "slice xs start endIndex =
     (let len = int (length xs);
          k = (if start < 0 then max (len + start) 0 else min start len);
          final = (if endIndex < 0 then max (len + endIndex) 0 else min endIndex len)
      in take (nat (final - k)) (drop (nat k) xs))"

subsection \<open>Numbers\<close>

text \<open>
  Counts, page numbers and limits are integers. \<^verbatim>\<open>Math.ceil(total / limit)\<close> is the
  one place where the service can leave the integers: a zero \<open>limit\<close> gives
  \<^verbatim>\<open>Infinity\<close>, \<^verbatim>\<open>-Infinity\<close> or \<^verbatim>\<open>NaN\<close>.
\<close>

datatype number = Fin int | PosInfinity | NegInfinity | NaN

definition Math_ceil_div :: "int \<Rightarrow> int \<Rightarrow> number" where
  "Math_ceil_div n d =
     (if d = 0
      then (if n = 0 then NaN else if 0 < n then PosInfinity else NegInfinity)
      else Fin (- ((- n) div d)))"

text \<open>\<^verbatim>\<open>page < totalPages\<close> for an integer \<open>page\<close>.\<close>

fun less_number :: "int \<Rightarrow> number \<Rightarrow> bool" where
  "less_number a (Fin b) = (a < b)"
| "less_number a PosInfinity = True"
| "less_number a NegInfinity = False"
| "less_number a NaN = False"

subsection \<open>Data transfer objects\<close>

text \<open>
  \<^verbatim>\<open>CountryDto\<close>. Latitude and longitude are decimal fractions that the service only
  copies; they are kept in ten-thousandths of a degree.
\<close>

record CountryDto =
  code :: string
  code3 :: string
  name :: string
  officialName :: string
  capital :: string
  continent :: string
  region :: string
  languages :: "string list"
  currencies :: "string list"
  callingCodes :: "string list"
  isPopularDestination :: bool
  flag :: string
  latitude :: int
  longitude :: int

text \<open>
  The two number fields that \<^verbatim>\<open>PaginationOptions\<close> and \<^verbatim>\<open>PaginationMetaDto\<close> share.
  A \<^verbatim>\<open>PaginationOptions\<close> object is these two properties in the order in which the
  caller set them, which is the order \<^verbatim>\<open>JSON.stringify\<close> follows: \<open>limitFirst\<close>
  tells that \<^verbatim>\<open>limit\<close> was set before \<^verbatim>\<open>page\<close>. In \<^verbatim>\<open>PaginationMetaDto\<close> the field
  \<^verbatim>\<open>total\<close> is written \<open>total_count\<close>.
\<close>

record PageLimit =
  page :: int
  limit :: int

record PaginationOptions = PageLimit +
  limitFirst :: bool

record PaginationMetaDto = PageLimit +
  total_count :: int
  totalPages :: number
  hasNext :: bool
  hasPrev :: bool

text \<open>The response envelope, and the paginated envelope with its \<^verbatim>\<open>meta\<close> block.\<close>

record 'a ResponseDto =
  success :: bool
  message :: string
  timestamp :: string
  data :: 'a

record 'a PaginatedResponseDto = "'a list ResponseDto" +
  meta :: PaginationMetaDto

text \<open>An element of the continent list: \<^verbatim>\<open>{ name, countryCount }\<close>. The field
  \<^verbatim>\<open>name\<close> is written \<open>continentName\<close>, since \<open>name\<close> is the country's.\<close>

record ContinentSummary =
  continentName :: string
  countryCount :: int

text \<open>
  \<^verbatim>\<open>CountryFilters\<close>: an object with the optional properties \<^verbatim>\<open>continent\<close>,
  \<^verbatim>\<open>region\<close> and \<^verbatim>\<open>search\<close>. The object is the list of its own properties in
  insertion order, which is the order \<^verbatim>\<open>JSON.stringify\<close> follows; a property holds a
  string or \<^verbatim>\<open>undefined\<close> (\<open>None\<close>).
\<close>

type_synonym CountryFilters = "(string \<times> string option) list"

text \<open>Reading a property: a missing property reads as \<^verbatim>\<open>undefined\<close>.\<close>

definition getProp :: "CountryFilters \<Rightarrow> string \<Rightarrow> string option" where
  "getProp obj k = (case map_of obj k of None \<Rightarrow> None | Some v \<Rightarrow> v)"

text \<open>The truthiness test \<^verbatim>\<open>if (continent)\<close>: \<^verbatim>\<open>undefined\<close> and the empty string are
  falsy.\<close>

fun truthy :: "string option \<Rightarrow> bool" where
  "truthy None = False"
| "truthy (Some s) = (s \<noteq> [])"

subsection \<open>\<^verbatim>\<open>JSON.stringify\<close> and the cache keys\<close>

text \<open>
  A string is written between double quotes, with the double quote, the backslash and
  the control characters escaped. An integer below \<open>10\<^sup>2\<^sup>1\<close> in magnitude is written
  in decimal; from \<open>10\<^sup>2\<^sup>1\<close> on JavaScript writes the significant digits, a point
  after the first of them when there are more, and the exponent, as in \<^verbatim>\<open>1e+21\<close> and
  \<^verbatim>\<open>1.5e+21\<close>. The integers meant are those that a JavaScript number holds and
  writes digit by digit: the integers up to \<open>2\<^sup>5\<^sup>3\<close> in magnitude, and beyond them those
  with at most fifteen significant digits.
\<close>

definition hexDigit :: "nat \<Rightarrow> char" where
  "hexDigit n = (''0123456789abcdef'') ! (n mod 16)"

definition escapeChar :: "char \<Rightarrow> string" where
  "escapeChar c =
     (if c = CHR 0x22 then [CHR 0x5C, CHR 0x22]
      else if c = CHR 0x5C then [CHR 0x5C, CHR 0x5C]
      else if c = CHR 0x08 then [CHR 0x5C, CHR ''b'']
      else if c = CHR 0x0C then [CHR 0x5C, CHR ''f'']
      else if c = CHR 0x0A then [CHR 0x5C, CHR ''n'']
      else if c = CHR 0x0D then [CHR 0x5C, CHR ''r'']
      else if c = CHR 0x09 then [CHR 0x5C, CHR ''t'']
      else if (of_char c :: nat) < 32
        then [CHR 0x5C, CHR ''u'', CHR ''0'', CHR ''0'',
              hexDigit (of_char c div 16), hexDigit (of_char c)]
      else [c])"

definition quoteString :: "string \<Rightarrow> string" where
  "quoteString s = [CHR 0x22] @ concat (map escapeChar s) @ [CHR 0x22]"

fun digitsOf :: "nat \<Rightarrow> string" where
  "digitsOf n =
     (if n < 10 then [hexDigit n] else digitsOf (n div 10) @ [hexDigit (n mod 10)])"

declare digitsOf.simps [simp del]

definition exponentNotation :: "nat \<Rightarrow> string" where
  "exponentNotation n =
     (let digits = digitsOf n;
          significant = rev (dropWhile (\<lambda>c. c = CHR ''0'') (rev digits));
          mantissa = (case significant of
                        [] \<Rightarrow> []
                      | [d] \<Rightarrow> [d]
                      | d # ds \<Rightarrow> d # CHR ''.'' # ds)
      in mantissa @ ''e+'' @ digitsOf (length digits - 1))"

definition numberToString :: "int \<Rightarrow> string" where
  "numberToString i =
     (let magnitude = nat \<bar>i\<bar>;
          written = (if \<bar>i\<bar> < 1000000000000000000000 then digitsOf magnitude
                     else exponentNotation magnitude)
      in if i < 0 then CHR ''-'' # written else written)"

text \<open>Joining with commas, as \<^verbatim>\<open>JSON.stringify\<close> does between the members of an
  object.\<close>

fun joinComma :: "string list \<Rightarrow> string" where
  "joinComma [] = []"
| "joinComma [x] = x"
| "joinComma (x # y # ys) = x @ '','' @ joinComma (y # ys)"

text \<open>A property whose value is \<^verbatim>\<open>undefined\<close> is left out; the others are written in
  the order of the object.\<close>

fun stringifyMember :: "string \<times> string option \<Rightarrow> string list" where
  "stringifyMember (k, None) = []"
| "stringifyMember (k, Some v) = [quoteString k @ '':'' @ quoteString v]"

definition stringifyFilters :: "CountryFilters \<Rightarrow> string" where
  "stringifyFilters filters = ''{'' @ joinComma (concat (map stringifyMember filters)) @ ''}''"

text \<open>The two members of the pagination object are written in the order in which
  they were set, like those of the filter object.\<close>

definition stringifyPagination :: "PaginationOptions \<Rightarrow> string" where
  "stringifyPagination pagination =
     (let pageMember = quoteString ''page'' @ '':'' @ numberToString (page pagination);
          limitMember = quoteString ''limit'' @ '':'' @ numberToString (limit pagination)
      in ''{'' @ joinComma (if limitFirst pagination then [limitMember, pageMember]
                            else [pageMember, limitMember]) @ ''}'')"

text \<open>\<^verbatim>\<open>JSON.stringify({ filters, pagination })\<close>.\<close>

definition JSON_stringify :: "CountryFilters \<Rightarrow> PaginationOptions \<Rightarrow> string" where
  "JSON_stringify filters pagination =
     ''{'' @ quoteString ''filters'' @ '':'' @ stringifyFilters filters @ '','' @
     quoteString ''pagination'' @ '':'' @ stringifyPagination pagination @ ''}''"

text \<open>\<^verbatim>\<open>CACHE_KEYS\<close> and \<^verbatim>\<open>CACHE_TTL\<close>.\<close>

definition ALL_COUNTRIES :: string where
  "ALL_COUNTRIES = ''countries:all''"

definition COUNTRY_BY_CODE :: string where
  "COUNTRY_BY_CODE = ''country:code:''"

definition CONTINENTS :: string where
  "CONTINENTS = ''countries:continents''"

definition POPULAR_COUNTRIES :: string where
  "POPULAR_COUNTRIES = ''countries:popular''"

definition CACHE_TTL :: int where
  "CACHE_TTL = 60 * 60 * 24"

text \<open>The key of \<^verbatim>\<open>getCountries\<close> (line 48) and the key of \<^verbatim>\<open>getCountryByCode\<close>
  (line 127).\<close>

definition filteredCacheKey :: "CountryFilters \<Rightarrow> PaginationOptions \<Rightarrow> string" where
  "filteredCacheKey filters pagination = ''countries:filtered:'' @ JSON_stringify filters pagination"

definition codeCacheKey :: "string \<Rightarrow> string" where
  "codeCacheKey c = COUNTRY_BY_CODE @ toUpperCase c"

subsection \<open>The cache and the store\<close>

text \<open>
  What the cache holds and what the operations return: the cache is untyped, and
  \<^verbatim>\<open>cacheManager.get<T>\<close> hands back whatever is stored under the key: a page of
  \<^verbatim>\<open>getCountries\<close>, a record of \<^verbatim>\<open>getCountryByCode\<close>, the record list of
  \<^verbatim>\<open>getAllCountries\<close> or the summary list of \<^verbatim>\<open>getContinents\<close>. Every such value
  is an object or an array, hence truthy in \<^verbatim>\<open>if (cached)\<close>.
\<close>

datatype json =
    JPage "CountryDto PaginatedResponseDto"
  | JCountry CountryDto
  | JCountries "CountryDto list"
  | JContinents "ContinentSummary list"

datatype cache_call = CacheGet string | CacheSet string json int | CacheDel string

datatype error = NotFoundException string | UpstreamFailure string

text \<open>
  The state: the connectivity probe \<^verbatim>\<open>prisma.isDbConnected()\<close>, the rows of the table
  behind \<^verbatim>\<open>prisma.country\<close> in storage order (a row has the fields that
  \<^verbatim>\<open>transformToDto\<close> reads), the entries of the cache (value and
  time-to-live as given to \<^verbatim>\<open>set\<close>; expiry is not part of the embedding), and the calls
  made to the cache so far, oldest first.
\<close>

record state =
  isDbConnected :: bool
  countryTable :: "CountryDto list"
  cacheEntries :: "string \<rightharpoonup> json \<times> int"
  cacheCalls :: "cache_call list"

definition cache_get :: "state \<Rightarrow> string \<Rightarrow> json option \<times> state" where
  "cache_get s k =
     (map_option fst (cacheEntries s k), s\<lparr>cacheCalls := cacheCalls s @ [CacheGet k]\<rparr>)"

definition cache_set :: "state \<Rightarrow> string \<Rightarrow> json \<Rightarrow> int \<Rightarrow> state" where
  "cache_set s k v ttl =
     s\<lparr>cacheEntries := (cacheEntries s)(k \<mapsto> (v, ttl)),
       cacheCalls := cacheCalls s @ [CacheSet k v ttl]\<rparr>"

definition cache_del :: "state \<Rightarrow> string \<Rightarrow> state" where
  "cache_del s k =
     s\<lparr>cacheEntries := (cacheEntries s)(k := None),
       cacheCalls := cacheCalls s @ [CacheDel k]\<rparr>"

subsection \<open>The store gateway\<close>

text \<open>
  Modelled from the spec: \<^verbatim>\<open>src/common/prisma.service.ts\<close> and the query client behind
  \<^verbatim>\<open>prisma.country\<close> are not among the sources. The spec gives the gateway as
  \<^verbatim>\<open>count(predicate)\<close>, \<^verbatim>\<open>findMany(predicate, order, offset, limit)\<close>,
  \<^verbatim>\<open>findFirst(predicate)\<close>, \<^verbatim>\<open>groupByCount(field)\<close> and \<^verbatim>\<open>isConnected()\<close>, with a
  predicate of a continent exact match, a region substring match and a search that is an
  OR across name and the two codes, all case-insensitive, and a fetch ordered by name.
  The predicate is the \<^verbatim>\<open>where\<close> object that the service builds: each of its three
  conditions is present or absent.
\<close>

record CountryWhereInput =
  where_continent :: "string option"
  where_region :: "string option"
  where_OR :: "string option"

text \<open>Modelled from the spec: the conditions \<^verbatim>\<open>{ equals: v, mode: 'insensitive' }\<close>
  and \<^verbatim>\<open>{ contains: v, mode: 'insensitive' }\<close> of the absent query client, as the
  case-insensitive exact match and substring match of the spec.\<close>

definition equals_insensitive :: "string \<Rightarrow> string \<Rightarrow> bool" where
  "equals_insensitive field v = (toLowerCase field = toLowerCase v)"

definition contains_insensitive :: "string \<Rightarrow> string \<Rightarrow> bool" where
  "contains_insensitive field v = includes_str (toLowerCase field) (toLowerCase v)"

text \<open>Modelled from the spec: the absent query client's test of a row against the
  predicate; the conditions that are present must all hold, and the search condition is
  the OR across name, code and three-letter code.\<close>

definition matchesWhere :: "CountryWhereInput \<Rightarrow> CountryDto \<Rightarrow> bool" where
  "matchesWhere w row =
     ((case where_continent w of None \<Rightarrow> True
        | Some v \<Rightarrow> equals_insensitive (continent row) v) \<and>
      (case where_region w of None \<Rightarrow> True
        | Some v \<Rightarrow> contains_insensitive (region row) v) \<and>
      (case where_OR w of None \<Rightarrow> True
        | Some v \<Rightarrow> contains_insensitive (name row) v \<or>
                   contains_insensitive (code row) v \<or>
                   contains_insensitive (code3 row) v))"

text \<open>Modelled from the spec: \<^verbatim>\<open>count(predicate)\<close> of the absent gateway, the number
  of rows that match.\<close>

definition prisma_count :: "state \<Rightarrow> CountryWhereInput \<Rightarrow> int" where
  "prisma_count s w = int (length (filter (matchesWhere w) (countryTable s)))"

text \<open>Modelled from the spec: \<^verbatim>\<open>findMany(predicate, order, offset, limit)\<close> of the
  absent gateway, with the order by name ascending that the service asks for. Names are
  ordered by their bytes, and rows with equal names keep their storage order. The
  gateway rejects a negative offset; a negative limit takes from the end of the ordered
  rows.\<close>

definition prisma_findMany ::
  "state \<Rightarrow> CountryWhereInput \<Rightarrow> int \<Rightarrow> int \<Rightarrow> error + CountryDto list" where
  "prisma_findMany s w skip takeN =
     (let ordered = sort_key name (filter (matchesWhere w) (countryTable s))
      in if skip < 0 then Inl (UpstreamFailure ''Invalid value for skip argument'')
         else if 0 \<le> takeN then Inr (take (nat takeN) (drop (nat skip) ordered))
         else Inr (rev (take (nat (- takeN)) (drop (nat skip) (rev ordered)))))"

text \<open>Modelled from the spec: \<^verbatim>\<open>findFirst(predicate)\<close> of the absent gateway for the
  predicate of \<^verbatim>\<open>getCountryByCode\<close>, an OR of case-insensitive exact matches on the two
  code fields; the first matching row in storage order, or none.\<close>

definition prisma_findFirst_byCode :: "state \<Rightarrow> string \<Rightarrow> CountryDto option" where
  "prisma_findFirst_byCode s v =
     find (\<lambda>row. equals_insensitive (code row) v \<or> equals_insensitive (code3 row) v)
       (countryTable s)"

text \<open>Modelled from the spec: \<^verbatim>\<open>groupByCount(field)\<close> of the absent gateway on the
  continent, ordered by continent name: each continent of the table once, with the
  number of its rows.\<close>

definition prisma_groupBy_continent :: "state \<Rightarrow> (string \<times> int) list" where
  "prisma_groupBy_continent s =
     map (\<lambda>c. (c, int (length (filter (\<lambda>row. continent row = c) (countryTable s)))))
       (sort (remdups (map continent (countryTable s))))"

subsection \<open>The fallback table\<close>

text \<open>\<^verbatim>\<open>getFallbackCountryData\<close> (lines 342 to 457). The flag glyphs are the UTF-8 bytes
  of the two regional indicator symbols.\<close>

definition regionalIndicators :: "nat \<Rightarrow> nat \<Rightarrow> string" where
  "regionalIndicators a b =
     [CHR 0xF0, CHR 0x9F, CHR 0x87, char_of (0xA6 + a), CHR 0xF0, CHR 0x9F, CHR 0x87, char_of (0xA6 + b)]"

definition getFallbackCountryData :: "CountryDto list" where
  "getFallbackCountryData =
    [\<lparr>code = ''US'', code3 = ''USA'', name = ''United States'',
      officialName = ''United States of America'', capital = ''Washington, D.C.'',
      continent = ''North America'', region = ''Northern America'',
      languages = [''English''], currencies = [''USD''], callingCodes = [''+1''],
      isPopularDestination = True, flag = regionalIndicators 20 18,
      latitude = 398283, longitude = - 985795\<rparr>,
     \<lparr>code = ''CA'', code3 = ''CAN'', name = ''Canada'',
      officialName = ''Canada'', capital = ''Ottawa'',
      continent = ''North America'', region = ''Northern America'',
      languages = [''English'', ''French''], currencies = [''CAD''], callingCodes = [''+1''],
      isPopularDestination = True, flag = regionalIndicators 2 0,
      latitude = 561304, longitude = - 1063468\<rparr>,
     \<lparr>code = ''GB'', code3 = ''GBR'', name = ''United Kingdom'',
      officialName = ''United Kingdom of Great Britain and Northern Ireland'',
      capital = ''London'',
      continent = ''Europe'', region = ''Northern Europe'',
      languages = [''English''], currencies = [''GBP''], callingCodes = [''+44''],
      isPopularDestination = True, flag = regionalIndicators 6 1,
      latitude = 553781, longitude = - 34360\<rparr>,
     \<lparr>code = ''FR'', code3 = ''FRA'', name = ''France'',
      officialName = ''French Republic'', capital = ''Paris'',
      continent = ''Europe'', region = ''Western Europe'',
      languages = [''French''], currencies = [''EUR''], callingCodes = [''+33''],
      isPopularDestination = True, flag = regionalIndicators 5 17,
      latitude = 462276, longitude = 22137\<rparr>,
     \<lparr>code = ''DE'', code3 = ''DEU'', name = ''Germany'',
      officialName = ''Federal Republic of Germany'', capital = ''Berlin'',
      continent = ''Europe'', region = ''Western Europe'',
      languages = [''German''], currencies = [''EUR''], callingCodes = [''+49''],
      isPopularDestination = True, flag = regionalIndicators 3 4,
      latitude = 511657, longitude = 104515\<rparr>,
     \<lparr>code = ''JP'', code3 = ''JPN'', name = ''Japan'',
      officialName = ''Japan'', capital = ''Tokyo'',
      continent = ''Asia'', region = ''Eastern Asia'',
      languages = [''Japanese''], currencies = [''JPY''], callingCodes = [''+81''],
      isPopularDestination = True, flag = regionalIndicators 9 15,
      latitude = 362048, longitude = 1382529\<rparr>,
     \<lparr>code = ''AU'', code3 = ''AUS'', name = ''Australia'',
      officialName = ''Commonwealth of Australia'', capital = ''Canberra'',
      continent = ''Oceania'', region = ''Australia and New Zealand'',
      languages = [''English''], currencies = [''AUD''], callingCodes = [''+61''],
      isPopularDestination = True, flag = regionalIndicators 0 20,
      latitude = - 252744, longitude = 1337751\<rparr>]"

text \<open>One filtering step of \<^verbatim>\<open>getFallbackCountries\<close>:
  \<^verbatim>\<open>if (filters.f) { filteredCountries = filteredCountries.filter(...) }\<close>.\<close>

definition filterWhenTruthy ::
  "string option \<Rightarrow> (string \<Rightarrow> CountryDto \<Rightarrow> bool) \<Rightarrow> CountryDto list \<Rightarrow> CountryDto list" where
  "filterWhenTruthy v keep countries =
     (case v of None \<Rightarrow> countries
      | Some t \<Rightarrow> if t \<noteq> [] then filter (keep t) countries else countries)"

text \<open>\<^verbatim>\<open>getFallbackCountries\<close> (lines 289 to 340).\<close>

definition getFallbackCountries ::
  "string \<Rightarrow> CountryFilters \<Rightarrow> PaginationOptions \<Rightarrow> CountryDto PaginatedResponseDto" where
  "getFallbackCountries now filters pagination =
     (let filteredCountries = getFallbackCountryData;
          filteredCountries = filterWhenTruthy (getProp filters ''continent'')
            (\<lambda>t country. toLowerCase (continent country) = toLowerCase t) filteredCountries;
          filteredCountries = filterWhenTruthy (getProp filters ''region'')
            (\<lambda>t country. includes_str (toLowerCase (region country)) (toLowerCase t))
            filteredCountries;
          filteredCountries = filterWhenTruthy (getProp filters ''search'')
            (\<lambda>t country. let searchTerm = toLowerCase t in
               includes_str (toLowerCase (name country)) searchTerm \<or>
               includes_str (toLowerCase (code country)) searchTerm \<or>
               includes_str (toLowerCase (code3 country)) searchTerm)
            filteredCountries;
          totalN = int (length filteredCountries);
          totalPagesN = Math_ceil_div totalN (limit pagination);
          startIndex = (page pagination - 1) * limit pagination;
          endIndex = startIndex + limit pagination;
          paginatedCountries = slice filteredCountries startIndex endIndex
      in \<lparr>success = True,
          message = ''Countries retrieved successfully (fallback data)'',
          timestamp = now,
          data = paginatedCountries,
          meta = \<lparr>page = page pagination,
                   limit = limit pagination,
                   total_count = totalN,
                   totalPages = totalPagesN,
                   hasNext = less_number (page pagination) totalPagesN,
                   hasPrev = (page pagination > 1)\<rparr>\<rparr>)"

text \<open>The message of the \<^verbatim>\<open>NotFoundException\<close> (lines 153 and 469).\<close>

definition notFoundMessage :: "string \<Rightarrow> string" where
  "notFoundMessage c = ''Country with code '' @ [CHR 0x27] @ c @ [CHR 0x27] @ '' not found''"

text \<open>\<^verbatim>\<open>getFallbackCountryByCode\<close> (lines 459 to 473).\<close>

definition getFallbackCountryByCode :: "string \<Rightarrow> error + CountryDto" where
  "getFallbackCountryByCode c =
     (case find (\<lambda>r. toLowerCase (code r) = toLowerCase c \<or>
                      toLowerCase (code3 r) = toLowerCase c) getFallbackCountryData of
        None \<Rightarrow> Inl (NotFoundException (notFoundMessage c))
      | Some country \<Rightarrow> Inr country)"

text \<open>
  \<^verbatim>\<open>getFallbackContinents\<close> (lines 475 to 497). The \<^verbatim>\<open>Map\<close> is the list of its entries
  in insertion order; \<^verbatim>\<open>set\<close> on a present key keeps the entry's place.
  \<^verbatim>\<open>Array.prototype.sort\<close> is stable, and \<^verbatim>\<open>localeCompare\<close> is taken as the order of
  the bytes (the continent names are ASCII and start with different capitals).
\<close>

definition Map_set :: "(string \<times> int) list \<Rightarrow> string \<Rightarrow> int \<Rightarrow> (string \<times> int) list" where
  "Map_set m k v =
     (if k \<in> fst ` set m then map (\<lambda>(k', v'). if k' = k then (k', v) else (k', v')) m
      else m @ [(k, v)])"

definition countContinent :: "CountryDto \<Rightarrow> (string \<times> int) list \<Rightarrow> (string \<times> int) list" where
  "countContinent country continentCounts =
     (let count = (case map_of continentCounts (continent country) of None \<Rightarrow> 0 | Some n \<Rightarrow> n)
      in Map_set continentCounts (continent country) (count + 1))"

definition continentSummaries :: "CountryDto list \<Rightarrow> ContinentSummary list" where
  "continentSummaries countries =
     sort_key continentName
       (map (\<lambda>(n, c). \<lparr>continentName = n, countryCount = c\<rparr>)
          (fold countContinent countries []))"

definition getFallbackContinents :: "string \<Rightarrow> json ResponseDto" where
  "getFallbackContinents now =
     \<lparr>success = True,
      message = ''Continents retrieved successfully (fallback data)'',
      timestamp = now,
      data = JContinents (continentSummaries getFallbackCountryData)\<rparr>"

subsection \<open>The service\<close>

text \<open>\<^verbatim>\<open>transformToDto\<close> (lines 269 to 286) copies the fourteen fields of a row.\<close>

definition transformToDto :: "CountryDto \<Rightarrow> CountryDto" where
  "transformToDto country =
     \<lparr>code = code country, code3 = code3 country, name = name country,
      officialName = officialName country, capital = capital country,
      continent = continent country, region = region country,
      languages = languages country, currencies = currencies country,
      callingCodes = callingCodes country,
      isPopularDestination = isPopularDestination country, flag = flag country,
      latitude = latitude country, longitude = longitude country\<rparr>"

text \<open>The \<^verbatim>\<open>where\<close> clause of \<^verbatim>\<open>getCountries\<close> (lines 58 to 81): a condition is set
  only for a truthy filter.\<close>

definition buildWhere ::
  "string option \<Rightarrow> string option \<Rightarrow> string option \<Rightarrow> CountryWhereInput" where
  "buildWhere continentF regionF searchF =
     \<lparr>where_continent = (if truthy continentF then continentF else None),
      where_region = (if truthy regionF then regionF else None),
      where_OR = (if truthy searchF then searchF else None)\<rparr>"

text \<open>
  \<^verbatim>\<open>getCountries\<close> (lines 35 to 124). The connectivity test comes before the cache key
  is built; the \<^verbatim>\<open>catch\<close> block logs and throws the error again.
\<close>

definition getCountries ::
  "state \<Rightarrow> string \<Rightarrow> CountryFilters \<Rightarrow> PaginationOptions \<Rightarrow> (error + json) \<times> state" where
  "getCountries s now filters pagination =
     (if \<not> isDbConnected s
      then (Inr (JPage (getFallbackCountries now filters pagination)), s)
      else
        let cacheKey = filteredCacheKey filters pagination;
            (cached, s1) = cache_get s cacheKey
        in case cached of
             Some v \<Rightarrow> (Inr v, s1)
           | None \<Rightarrow>
               let whereC = buildWhere (getProp filters ''continent'')
                              (getProp filters ''region'') (getProp filters ''search'');
                   totalN = prisma_count s1 whereC
               in case prisma_findMany s1 whereC
                         ((page pagination - 1) * limit pagination) (limit pagination) of
                    Inl e \<Rightarrow> (Inl e, s1)
                  | Inr countries \<Rightarrow>
                      let countryDtos = map transformToDto countries;
                          totalPagesN = Math_ceil_div totalN (limit pagination);
                          metaN = \<lparr>page = page pagination,
                                   limit = limit pagination,
                                   total_count = totalN,
                                   totalPages = totalPagesN,
                                   hasNext = less_number (page pagination) totalPagesN,
                                   hasPrev = (page pagination > 1)\<rparr>;
                          result = \<lparr>success = True,
                                    message = ''Countries retrieved successfully'',
                                    timestamp = now,
                                    data = countryDtos,
                                    meta = metaN\<rparr>;
                          s2 = cache_set s1 cacheKey (JPage result) CACHE_TTL
                      in (Inr (JPage result), s2))"

text \<open>\<^verbatim>\<open>getCountryByCode\<close> (lines 126 to 170): here the cache is read before the
  connectivity test.\<close>

definition getCountryByCode :: "state \<Rightarrow> string \<Rightarrow> (error + json) \<times> state" where
  "getCountryByCode s c =
     (let cacheKey = codeCacheKey c;
          (cached, s1) = cache_get s cacheKey
      in case cached of
           Some v \<Rightarrow> (Inr v, s1)
         | None \<Rightarrow>
             if \<not> isDbConnected s1
             then (case getFallbackCountryByCode c of
                     Inl e \<Rightarrow> (Inl e, s1)
                   | Inr country \<Rightarrow> (Inr (JCountry country), s1))
             else (case prisma_findFirst_byCode s1 (toUpperCase c) of
                     None \<Rightarrow> (Inl (NotFoundException (notFoundMessage c)), s1)
                   | Some country \<Rightarrow>
                       let countryDto = transformToDto country;
                           s2 = cache_set s1 cacheKey (JCountry countryDto) CACHE_TTL
                       in (Inr (JCountry countryDto), s2)))"

text \<open>\<^verbatim>\<open>getContinents\<close> (lines 172 to 221).\<close>

definition getContinents :: "state \<Rightarrow> string \<Rightarrow> (error + json ResponseDto) \<times> state" where
  "getContinents s now =
     (let (cached, s1) = cache_get s CONTINENTS
      in case cached of
           Some v \<Rightarrow>
             (Inr \<lparr>success = True, message = ''Continents retrieved successfully'',
                   timestamp = now, data = v\<rparr>, s1)
         | None \<Rightarrow>
             if \<not> isDbConnected s1 then (Inr (getFallbackContinents now), s1)
             else
               let continents = prisma_groupBy_continent s1;
                   continentData =
                     map (\<lambda>(c, n). \<lparr>continentName = c, countryCount = n\<rparr>) continents;
                   s2 = cache_set s1 CONTINENTS (JContinents continentData) CACHE_TTL
               in (Inr \<lparr>success = True, message = ''Continents retrieved successfully'',
                         timestamp = now, data = JContinents continentData\<rparr>, s2))"

text \<open>\<^verbatim>\<open>invalidateCache\<close> (lines 250 to 267): three deletions.\<close>

definition invalidateCache :: "state \<Rightarrow> state" where
  "invalidateCache s =
     cache_del (cache_del (cache_del s ALL_COUNTRIES) CONTINENTS) POPULAR_COUNTRIES"

subsection \<open>The route handler\<close>

text \<open>
  \<^verbatim>\<open>CountriesController.getCountries\<close>: the four bound query parameters, \<open>None\<close> for
  one that the request does not carry. \<^verbatim>\<open>page\<close> defaults to 1 and \<^verbatim>\<open>limit\<close> to 20;
  the filter object is \<^verbatim>\<open>{ continent, search }\<close> and the pagination object
  \<^verbatim>\<open>{ page, limit }\<close>.
\<close>

definition controllerFilters :: "string option \<Rightarrow> string option \<Rightarrow> CountryFilters" where
  "controllerFilters continentQ searchQ = [(''continent'', continentQ), (''search'', searchQ)]"

definition controllerPagination :: "int option \<Rightarrow> int option \<Rightarrow> PaginationOptions" where
  "controllerPagination pageQ limitQ =
     \<lparr>page = (case pageQ of None \<Rightarrow> 1 | Some p \<Rightarrow> p),
      limit = (case limitQ of None \<Rightarrow> 20 | Some l \<Rightarrow> l),
      limitFirst = False\<rparr>"

definition controller_getCountries ::
  "state \<Rightarrow> string \<Rightarrow> int option \<Rightarrow> int option \<Rightarrow> string option \<Rightarrow> string option
     \<Rightarrow> (error + json) \<times> state" where
  "controller_getCountries s now pageQ limitQ continentQ searchQ =
     getCountries s now (controllerFilters continentQ searchQ)
       (controllerPagination pageQ limitQ)"

subsection \<open>Example inputs\<close>

text \<open>A clock reading, a row that the fallback table does not have, and the states
  at which the theorems below are evaluated.\<close>

definition exampleNow :: string where
  "exampleNow = ''2023-10-24T12:00:00.000Z''"

definition nigeria :: CountryDto where
  "nigeria =
     \<lparr>code = ''NG'', code3 = ''NGA'', name = ''Nigeria'',
      officialName = ''Federal Republic of Nigeria'', capital = ''Abuja'',
      continent = ''Africa'', region = ''Western Africa'',
      languages = [''English''], currencies = [''NGN''], callingCodes = [''+234''],
      isPopularDestination = False, flag = regionalIndicators 13 6,
      latitude = 90820, longitude = 86753\<rparr>"

definition offlineEmpty :: state where
  "offlineEmpty =
     \<lparr>isDbConnected = False, countryTable = [], cacheEntries = Map.empty, cacheCalls = []\<rparr>"

definition onlineEmpty :: state where
  "onlineEmpty =
     \<lparr>isDbConnected = True, countryTable = nigeria # getFallbackCountryData,
      cacheEntries = Map.empty, cacheCalls = []\<rparr>"

definition unitedStates :: CountryDto where
  "unitedStates = hd getFallbackCountryData"

definition firstPage :: PaginationOptions where
  "firstPage = \<lparr>page = 1, limit = 20, limitFirst = False\<rparr>"

text \<open>The same page request with \<^verbatim>\<open>limit\<close> set before \<^verbatim>\<open>page\<close>:
  \<^verbatim>\<open>{ limit: 20, page: 1 }\<close>.\<close>

definition firstPageLimitFirst :: PaginationOptions where
  "firstPageLimitFirst = \<lparr>page = 1, limit = 20, limitFirst = True\<rparr>"

text \<open>A page of results as the store-backed path caches it, and a state in which
  the store has gone away after that page was cached under the key of the unfiltered
  first page.\<close>

definition cachedPage :: "CountryDto PaginatedResponseDto" where
  "cachedPage =
     \<lparr>success = True, message = ''Countries retrieved successfully'',
      timestamp = ''2023-10-23T08:00:00.000Z'', data = [nigeria],
      meta = \<lparr>page = 1, limit = 20, total_count = 1, totalPages = Fin 1,
               hasNext = False, hasPrev = False\<rparr>\<rparr>"

definition offlineCachedPage :: state where
  "offlineCachedPage =
     \<lparr>isDbConnected = False, countryTable = [],
      cacheEntries = [filteredCacheKey [] firstPage \<mapsto> (JPage cachedPage, CACHE_TTL)],
      cacheCalls = []\<rparr>"

definition onlineCachedPage :: state where
  "onlineCachedPage =
     \<lparr>isDbConnected = True, countryTable = nigeria # getFallbackCountryData,
      cacheEntries = [filteredCacheKey [] firstPage \<mapsto> (JPage cachedPage, CACHE_TTL)],
      cacheCalls = []\<rparr>"

text \<open>A state in which the store has gone away after the row of Nigeria was cached
  under its per-code key.\<close>

definition offlineCachedCode :: state where
  "offlineCachedCode =
     \<lparr>isDbConnected = False, countryTable = [],
      cacheEntries = [codeCacheKey ''NG'' \<mapsto> (JCountry nigeria, CACHE_TTL)],
      cacheCalls = []\<rparr>"

text \<open>A state in which the store has gone away after its row of the United States,
  which differs from the fallback record in one field, was cached under the key of the
  two-letter code.\<close>

definition unitedStatesStored :: CountryDto where
  "unitedStatesStored = unitedStates\<lparr>isPopularDestination := False\<rparr>"

definition offlineStaleCode :: state where
  "offlineStaleCode =
     \<lparr>isDbConnected = False, countryTable = [],
      cacheEntries = [codeCacheKey ''US'' \<mapsto> (JCountry unitedStatesStored, CACHE_TTL)],
      cacheCalls = []\<rparr>"

text \<open>Two filter objects with the same properties, set in a different order.\<close>

definition continentThenSearch :: CountryFilters where
  "continentThenSearch = [(''continent'', Some ''Europe''), (''search'', Some ''fr'')]"

definition searchThenContinent :: CountryFilters where
  "searchThenContinent = [(''search'', Some ''fr''), (''continent'', Some ''Europe'')]"

subsection \<open>Notions used in the statements\<close>

text \<open>
  The records that a code lookup draws on: the table of the store when it is connected,
  the fallback table otherwise. A code matches a record when it equals the record's
  two-letter or three-letter code up to case. The codes of a list of records are unique
  when no two-letter or three-letter code occurs twice among them, up to case.
\<close>

definition dataset :: "state \<Rightarrow> CountryDto list" where
  "dataset s = (if isDbConnected s then countryTable s else getFallbackCountryData)"

definition matchesCode :: "string \<Rightarrow> CountryDto \<Rightarrow> bool" where
  "matchesCode c r =
     (toLowerCase (code r) = toLowerCase c \<or> toLowerCase (code3 r) = toLowerCase c)"

definition uniqueCodes :: "CountryDto list \<Rightarrow> bool" where
  "uniqueCodes rows =
     distinct (map (\<lambda>r. toLowerCase (code r)) rows @ map (\<lambda>r. toLowerCase (code3 r)) rows)"

text \<open>
  The strings on which the case mapping of the embedding is that of JavaScript: those
  of ASCII characters. The statements about the lookup by code are made for such codes,
  given and stored.
\<close>

definition asciiString :: "string \<Rightarrow> bool" where
  "asciiString s = list_all (\<lambda>c. (of_char c :: nat) < 128) s"

definition asciiCodes :: "CountryDto list \<Rightarrow> bool" where
  "asciiCodes rows = list_all (\<lambda>r. asciiString (code r) \<and> asciiString (code3 r)) rows"

text \<open>
  The cache is not stale for a code when it has no entry under the key of the code, or
  the entry is a record of the dataset that the code matches.
\<close>

definition codeEntryCoherent :: "state \<Rightarrow> string \<Rightarrow> bool" where
  "codeEntryCoherent s c =
     (case cacheEntries s (codeCacheKey c) of
        None \<Rightarrow> True
      | Some entry \<Rightarrow>
          list_ex (\<lambda>r. fst entry = JCountry r \<and> matchesCode c r) (dataset s))"

section \<open>Properties\<close>

subsection \<open>Cache operations and keys\<close>

lemma cache_get_simps:
  "fst (cache_get s k) = map_option fst (cacheEntries s k)"
  "snd (cache_get s k) = s\<lparr>cacheCalls := cacheCalls s @ [CacheGet k]\<rparr>"
  by (simp_all add: cache_get_def)

lemma cache_set_simps:
  "cacheEntries (cache_set s k v ttl) = (cacheEntries s)(k \<mapsto> (v, ttl))"
  "cacheCalls (cache_set s k v ttl) = cacheCalls s @ [CacheSet k v ttl]"
  "isDbConnected (cache_set s k v ttl) = isDbConnected s"
  "countryTable (cache_set s k v ttl) = countryTable s"
  by (simp_all add: cache_set_def)

lemma cache_del_simps:
  "cacheEntries (cache_del s k) = (cacheEntries s)(k := None)"
  "cacheCalls (cache_del s k) = cacheCalls s @ [CacheDel k]"
  "isDbConnected (cache_del s k) = isDbConnected s"
  "countryTable (cache_del s k) = countryTable s"
  by (simp_all add: cache_del_def)

text \<open>The per-code keys and the per-filter keys differ from the three aggregate keys:
  \<^verbatim>\<open>country:code:\<close> parts from \<^verbatim>\<open>countries:\<close> at the seventh character, and
  \<^verbatim>\<open>countries:filtered:\<close> from the aggregate keys at the eleventh.\<close>

lemma codeCacheKey_not_aggregate:
  "codeCacheKey c \<noteq> ALL_COUNTRIES"
  "codeCacheKey c \<noteq> CONTINENTS"
  "codeCacheKey c \<noteq> POPULAR_COUNTRIES"
  by (simp_all add: codeCacheKey_def COUNTRY_BY_CODE_def ALL_COUNTRIES_def CONTINENTS_def
        POPULAR_COUNTRIES_def)

lemma filteredCacheKey_not_aggregate:
  "filteredCacheKey f p \<noteq> ALL_COUNTRIES"
  "filteredCacheKey f p \<noteq> CONTINENTS"
  "filteredCacheKey f p \<noteq> POPULAR_COUNTRIES"
  by (simp_all add: filteredCacheKey_def ALL_COUNTRIES_def CONTINENTS_def
        POPULAR_COUNTRIES_def)

subsection \<open>Invalidation\<close>

text \<open>
  Claim C9. \<^verbatim>\<open>invalidateCache\<close> deletes exactly the three aggregate keys
  \<^verbatim>\<open>countries:all\<close>, \<^verbatim>\<open>countries:continents\<close> and \<^verbatim>\<open>countries:popular\<close>: the
  entries afterwards are the entries before with these three keys removed, so every
  other entry is as it was, in particular the entry of every per-code key and of every
  per-filter key. The cache sees three deletions and nothing else, and the store is
  untouched.
\<close>

theorem invalidateCache_deletes_three_keys:
  "cacheEntries (invalidateCache s) =
     (cacheEntries s)(ALL_COUNTRIES := None, CONTINENTS := None, POPULAR_COUNTRIES := None) \<and>
   cacheEntries (invalidateCache s) (codeCacheKey c) = cacheEntries s (codeCacheKey c) \<and>
   cacheEntries (invalidateCache s) (filteredCacheKey f p) =
     cacheEntries s (filteredCacheKey f p) \<and>
   cacheCalls (invalidateCache s) =
     cacheCalls s @ [CacheDel ALL_COUNTRIES, CacheDel CONTINENTS, CacheDel POPULAR_COUNTRIES] \<and>
   isDbConnected (invalidateCache s) = isDbConnected s \<and>
   countryTable (invalidateCache s) = countryTable s"
  by (simp add: invalidateCache_def cache_del_simps codeCacheKey_not_aggregate
        filteredCacheKey_not_aggregate)

subsection \<open>The route handler and the region filter\<close>

text \<open>
  Claim C10. For every request, the handler of \<^verbatim>\<open>GET /countries\<close> calls
  \<^verbatim>\<open>getCountries\<close> with a filter object whose properties are \<^verbatim>\<open>continent\<close> and
  \<^verbatim>\<open>search\<close> and nothing else. In that call \<^verbatim>\<open>region\<close> reads as \<^verbatim>\<open>undefined\<close>, the
  guard of the region branch is false, the \<^verbatim>\<open>where\<close> clause has no region condition,
  and the region step of the fallback path leaves its list as it is: the region filter
  cannot be reached through the handler.
\<close>

theorem controller_never_forwards_region:
  "controller_getCountries s now pageQ limitQ continentQ searchQ =
     getCountries s now (controllerFilters continentQ searchQ)
       (controllerPagination pageQ limitQ) \<and>
   map fst (controllerFilters continentQ searchQ) = [''continent'', ''search''] \<and>
   getProp (controllerFilters continentQ searchQ) ''continent'' = continentQ \<and>
   getProp (controllerFilters continentQ searchQ) ''search'' = searchQ \<and>
   getProp (controllerFilters continentQ searchQ) ''region'' = None \<and>
   \<not> truthy (getProp (controllerFilters continentQ searchQ) ''region'') \<and>
   where_region (buildWhere (getProp (controllerFilters continentQ searchQ) ''continent'')
      (getProp (controllerFilters continentQ searchQ) ''region'')
      (getProp (controllerFilters continentQ searchQ) ''search'')) = None \<and>
   filterWhenTruthy (getProp (controllerFilters continentQ searchQ) ''region'') keep countries =
     countries"
  by (simp add: controller_getCountries_def controllerFilters_def getProp_def buildWhere_def
        filterWhenTruthy_def)

subsection \<open>Case mapping\<close>

lemma toUpperCase_char_of:
  "(n::nat) < 256 \<Longrightarrow>
     toUpperCase_char (char_of n) = (if 97 \<le> n \<and> n \<le> 122 then char_of (n - 32) else char_of n)"
  by (simp add: toUpperCase_char_def less_eq_char_def)

lemma toLowerCase_char_of:
  "(n::nat) < 256 \<Longrightarrow>
     toLowerCase_char (char_of n) = (if 65 \<le> n \<and> n \<le> 90 then char_of (n + 32) else char_of n)"
  by (simp add: toLowerCase_char_def less_eq_char_def)

lemma char_as_nat:
  obtains n :: nat where "c = char_of n" and "n < 256"
  by (metis nat_of_char_less_256 char_of_char)

lemma toLowerCase_toUpperCase_char: "toLowerCase_char (toUpperCase_char c) = toLowerCase_char c"
proof -
  obtain n :: nat where c: "c = char_of n" and n: "n < 256"
    by (rule char_as_nat)
  show ?thesis
    unfolding c using n by (auto simp add: toUpperCase_char_of toLowerCase_char_of)
qed

lemma toUpperCase_toLowerCase_char: "toUpperCase_char (toLowerCase_char c) = toUpperCase_char c"
proof -
  obtain n :: nat where c: "c = char_of n" and n: "n < 256"
    by (rule char_as_nat)
  show ?thesis
    unfolding c using n by (auto simp add: toUpperCase_char_of toLowerCase_char_of)
qed

lemma toLowerCase_toUpperCase: "toLowerCase (toUpperCase s) = toLowerCase s"
  by (simp add: toLowerCase_def toUpperCase_def toLowerCase_toUpperCase_char)

lemma toUpperCase_toLowerCase: "toUpperCase (toLowerCase s) = toUpperCase s"
  by (simp add: toLowerCase_def toUpperCase_def toUpperCase_toLowerCase_char)

lemma toUpperCase_eq_iff:
  "toUpperCase a = toUpperCase b \<longleftrightarrow> toLowerCase a = toLowerCase b"
  by (metis toLowerCase_toUpperCase toUpperCase_toLowerCase)

subsection \<open>The branches of \<^verbatim>\<open>getCountries\<close>\<close>

lemma transformToDto_id: "transformToDto r = r"
  by (simp add: transformToDto_def)

lemma map_transformToDto: "map transformToDto rs = rs"
  by (induction rs) (simp_all add: transformToDto_id)

lemma getCountries_disconnected:
  "\<not> isDbConnected s \<Longrightarrow>
     getCountries s now filters pagination =
       (Inr (JPage (getFallbackCountries now filters pagination)), s)"
  by (simp add: getCountries_def)

lemma getCountries_hit:
  "isDbConnected s \<Longrightarrow>
   cacheEntries s (filteredCacheKey filters pagination) = Some (v, ttl) \<Longrightarrow>
     getCountries s now filters pagination =
       (Inr v, s\<lparr>cacheCalls := cacheCalls s @ [CacheGet (filteredCacheKey filters pagination)]\<rparr>)"
  by (simp add: getCountries_def cache_get_def)

text \<open>
  Claim C1, as the code has it. \<^verbatim>\<open>getCountries\<close> tests the connectivity of the store
  before it builds the cache key. When the store is disconnected, the fallback path is
  taken whatever the cache holds, and the cache is not consulted at all (the state,
  with its record of cache calls, is returned as it was). When the store is connected,
  the cache is consulted first, and a value cached under the computed key is returned
  unchanged, with the timestamp it was cached with.
\<close>

theorem getCountries_connectivity_before_cache:
  "(\<not> isDbConnected s \<longrightarrow>
      getCountries s now filters pagination =
        (Inr (JPage (getFallbackCountries now filters pagination)), s)) \<and>
   (isDbConnected s \<longrightarrow>
    cacheEntries s (filteredCacheKey filters pagination) = Some (v, ttl) \<longrightarrow>
      getCountries s now filters pagination =
        (Inr v,
         s\<lparr>cacheCalls := cacheCalls s @ [CacheGet (filteredCacheKey filters pagination)]\<rparr>))"
  by (simp add: getCountries_disconnected getCountries_hit)

theorem getCountries_connectivity_before_cache_witness:
  "\<not> isDbConnected offlineCachedPage \<and>
   getCountries offlineCachedPage exampleNow [] firstPage =
     (Inr (JPage (getFallbackCountries exampleNow [] firstPage)), offlineCachedPage) \<and>
   isDbConnected onlineCachedPage \<and>
   cacheEntries onlineCachedPage (filteredCacheKey [] firstPage) =
     Some (JPage cachedPage, CACHE_TTL) \<and>
   fst (getCountries onlineCachedPage exampleNow [] firstPage) = Inr (JPage cachedPage) \<and>
   timestamp cachedPage \<noteq> exampleNow"
  using getCountries_connectivity_before_cache
          [of offlineCachedPage exampleNow "[]" firstPage "JPage cachedPage" CACHE_TTL]
        getCountries_connectivity_before_cache
          [of onlineCachedPage exampleNow "[]" firstPage "JPage cachedPage" CACHE_TTL]
  by (simp add: offlineCachedPage_def onlineCachedPage_def cachedPage_def exampleNow_def)

text \<open>
  Claim C1 as stated fails: with the store disconnected and a page cached under the
  computed key, \<^verbatim>\<open>getCountries\<close> does not return the cached page; it makes no call
  to the cache.
\<close>

theorem getCountries_cache_first_counterexample:
  "\<not> isDbConnected offlineCachedPage \<and>
   cacheEntries offlineCachedPage (filteredCacheKey [] firstPage) =
     Some (JPage cachedPage, CACHE_TTL) \<and>
   fst (getCountries offlineCachedPage exampleNow [] firstPage) \<noteq> Inr (JPage cachedPage) \<and>
   cacheCalls (snd (getCountries offlineCachedPage exampleNow [] firstPage)) = []"
  by (simp add: getCountries_def offlineCachedPage_def getFallbackCountries_def cachedPage_def
        Let_def)

subsection \<open>Pagination\<close>

lemma Math_ceil_div_ceiling:
  "d \<noteq> 0 \<Longrightarrow> Math_ceil_div n d = Fin \<lceil>real_of_int n / real_of_int d\<rceil>"
  by (simp add: Math_ceil_div_def ceiling_divide_eq_div)

lemma length_slice_le:
  "0 \<le> start \<Longrightarrow> 0 \<le> n \<Longrightarrow> int (length (slice xs start (start + n))) \<le> n"
  by (auto simp add: slice_def Let_def min_def)

lemma getFallbackCountries_consistent:
  assumes "0 < page pagination" and "0 < limit pagination"
  shows "int (length (data (getFallbackCountries now filters pagination))) \<le> limit pagination"
    and "totalPages (meta (getFallbackCountries now filters pagination)) =
           Fin \<lceil>real_of_int (total_count (meta (getFallbackCountries now filters pagination))) /
                real_of_int (limit pagination)\<rceil>"
    and "hasNext (meta (getFallbackCountries now filters pagination)) =
           (page pagination <
              \<lceil>real_of_int (total_count (meta (getFallbackCountries now filters pagination))) /
               real_of_int (limit pagination)\<rceil>)"
    and "hasPrev (meta (getFallbackCountries now filters pagination)) = (1 < page pagination)"
  using assms
  by (simp_all add: getFallbackCountries_def Let_def Math_ceil_div_ceiling length_slice_le)

text \<open>
  Claim C5. For a page request with positive \<open>page\<close> and \<open>limit\<close>, a run of
  \<^verbatim>\<open>getCountries\<close> on the fallback path (store disconnected) or on the store-backed
  path (store connected, nothing cached under the key) returns a page whose \<open>data\<close>
  has at most \<open>limit\<close> records, whose \<open>totalPages\<close> is the ceiling of
  \<open>total / limit\<close>, whose \<open>hasNext\<close> is \<open>page < totalPages\<close> and whose \<open>hasPrev\<close>
  is \<open>page > 1\<close>.
\<close>

theorem getCountries_pagination_consistent:
  assumes "0 < page pagination" and "0 < limit pagination"
    and "\<not> isDbConnected s \<or> cacheEntries s (filteredCacheKey filters pagination) = None"
  shows "\<exists>r s'. getCountries s now filters pagination = (Inr (JPage r), s') \<and>
           int (length (data r)) \<le> limit pagination \<and>
           totalPages (meta r) =
             Fin \<lceil>real_of_int (total_count (meta r)) / real_of_int (limit pagination)\<rceil> \<and>
           hasNext (meta r) =
             (page pagination <
                \<lceil>real_of_int (total_count (meta r)) / real_of_int (limit pagination)\<rceil>) \<and>
           hasPrev (meta r) = (1 < page pagination)"
proof (cases "isDbConnected s")
  case False
  then show ?thesis
    using getFallbackCountries_consistent [OF assms(1,2)]
    by (simp add: getCountries_disconnected)
next
  case True
  with assms(3) have miss: "cacheEntries s (filteredCacheKey filters pagination) = None"
    by simp
  have skip: "\<not> (page pagination - 1) * limit pagination < 0"
    using assms(1,2) by (simp add: not_less)
  show ?thesis
    using True miss skip assms(1,2)
    by (simp add: getCountries_def cache_get_def prisma_findMany_def prisma_count_def Let_def
          cache_set_def map_transformToDto Math_ceil_div_ceiling)
qed

theorem getCountries_pagination_consistent_witness:
  "0 < page \<lparr>page = 2, limit = 3, limitFirst = False\<rparr> \<and> 0 < limit \<lparr>page = 2, limit = 3, limitFirst = False\<rparr> \<and>
   \<not> isDbConnected offlineEmpty \<and>
   cacheEntries onlineEmpty (filteredCacheKey [] \<lparr>page = 2, limit = 3, limitFirst = False\<rparr>) = None \<and>
   (\<exists>r s'. getCountries offlineEmpty exampleNow [] \<lparr>page = 2, limit = 3, limitFirst = False\<rparr> = (Inr (JPage r), s') \<and>
      int (length (data r)) \<le> 3 \<and>
      totalPages (meta r) = Fin \<lceil>real_of_int (total_count (meta r)) / 3\<rceil> \<and>
      hasNext (meta r) = (2 < \<lceil>real_of_int (total_count (meta r)) / 3\<rceil>) \<and>
      hasPrev (meta r)) \<and>
   (\<exists>r s'. getCountries onlineEmpty exampleNow [] \<lparr>page = 2, limit = 3, limitFirst = False\<rparr> = (Inr (JPage r), s') \<and>
      int (length (data r)) \<le> 3 \<and>
      totalPages (meta r) = Fin \<lceil>real_of_int (total_count (meta r)) / 3\<rceil> \<and>
      hasNext (meta r) = (2 < \<lceil>real_of_int (total_count (meta r)) / 3\<rceil>) \<and>
      hasPrev (meta r))"
  using getCountries_pagination_consistent
          [of "\<lparr>page = 2, limit = 3, limitFirst = False\<rparr>" offlineEmpty "[]" exampleNow]
        getCountries_pagination_consistent
          [of "\<lparr>page = 2, limit = 3, limitFirst = False\<rparr>" onlineEmpty "[]" exampleNow]
  by (simp add: offlineEmpty_def onlineEmpty_def)

subsection \<open>Order of the records\<close>

text \<open>On the store-backed path the records of a page are in ascending order of
  their names: the rows come from the fetch ordered by name.\<close>

lemma getCountries_store_sorted:
  assumes "0 < page pagination" and "0 < limit pagination"
    and "isDbConnected s" and "cacheEntries s (filteredCacheKey filters pagination) = None"
  shows "\<exists>r s'. getCountries s now filters pagination = (Inr (JPage r), s') \<and>
           sorted (map name (data r))"
proof -
  have skip: "\<not> (page pagination - 1) * limit pagination < 0"
    using assms(1,2) by (simp add: not_less)
  have "sorted (take n (drop k (map name (sort_key name rows))))" for n k rows
    by (intro sorted_wrt_take sorted_wrt_drop) simp
  then have "sorted (map name (take n (drop k (sort_key name rows))))" for n k rows
    by (simp add: take_map drop_map)
  then show ?thesis
    using assms skip
    by (simp add: getCountries_def cache_get_def prisma_findMany_def prisma_count_def Let_def
          cache_set_def map_transformToDto)
qed

text \<open>
  Claim C2. The fallback path does not sort. With the store disconnected, no filter
  and the first page of twenty, \<^verbatim>\<open>getCountries\<close> returns the seven records of the
  fallback table in the order of the table, which begins with United States and Canada:
  the names are not in ascending order.
\<close>

theorem getCountries_fallback_not_sorted:
  "fst (getCountries offlineEmpty exampleNow [] firstPage) =
     Inr (JPage (getFallbackCountries exampleNow [] firstPage)) \<and>
   map name (data (getFallbackCountries exampleNow [] firstPage)) =
     [''United States'', ''Canada'', ''United Kingdom'', ''France'', ''Germany'', ''Japan'',
      ''Australia''] \<and>
   \<not> sorted (map name (data (getFallbackCountries exampleNow [] firstPage)))"
  by (simp add: getCountries_def offlineEmpty_def getFallbackCountries_def
        getFallbackCountryData_def filterWhenTruthy_def getProp_def slice_def Let_def
        firstPage_def)


subsection \<open>Cache keys\<close>

lemma stringifyMembers_defined:
  "concat (map stringifyMember (filter (\<lambda>(k, v). v \<noteq> None) filters)) =
   concat (map stringifyMember filters)"
proof (induction filters)
  case Nil
  show ?case by simp
next
  case (Cons m filters)
  obtain k v where m: "m = (k, v)" by (cases m)
  show ?case
    unfolding m using Cons.IH by (cases v) simp_all
qed

lemma stringifyFilters_defined:
  "stringifyFilters (filter (\<lambda>(k, v). v \<noteq> None) filters) = stringifyFilters filters"
  by (simp only: stringifyFilters_def stringifyMembers_defined)

text \<open>
  Claim C4, as the code has it. The key is \<^verbatim>\<open>JSON.stringify\<close> of the two objects, which
  writes the properties of each object in their insertion order and leaves out those
  that are \<^verbatim>\<open>undefined\<close>. Two filter objects whose defined properties are the same in
  the same order, with two page requests that have the same \<open>page\<close> and \<open>limit\<close> set
  in the same order, give byte-identical keys; where the \<^verbatim>\<open>undefined\<close> properties
  stand does not matter.
\<close>

theorem filteredCacheKey_same_properties_same_order:
  assumes "filter (\<lambda>(k, v). v \<noteq> None) filters1 = filter (\<lambda>(k, v). v \<noteq> None) filters2"
    and "page pagination1 = page pagination2"
    and "limit pagination1 = limit pagination2"
    and "limitFirst pagination1 = limitFirst pagination2"
  shows "filteredCacheKey filters1 pagination1 = filteredCacheKey filters2 pagination2"
proof -
  have "stringifyFilters filters1 = stringifyFilters filters2"
    using assms(1) stringifyFilters_defined [of filters1] stringifyFilters_defined [of filters2]
    by simp
  moreover have "stringifyPagination pagination1 = stringifyPagination pagination2"
    using assms(2,3,4) by (simp add: stringifyPagination_def)
  ultimately show ?thesis
    by (simp add: filteredCacheKey_def JSON_stringify_def)
qed

theorem filteredCacheKey_same_properties_same_order_witness:
  "filter (\<lambda>(k, v). v \<noteq> None) [(''continent'', Some ''Europe''), (''search'', None)] =
   filter (\<lambda>(k, v). v \<noteq> None) [(''region'', None), (''continent'', Some ''Europe'')] \<and>
   page (controllerPagination None (Some 20)) = page firstPage \<and>
   limit (controllerPagination None (Some 20)) = limit firstPage \<and>
   limitFirst (controllerPagination None (Some 20)) = limitFirst firstPage \<and>
   filteredCacheKey [(''continent'', Some ''Europe''), (''search'', None)]
     (controllerPagination None (Some 20)) =
   filteredCacheKey [(''region'', None), (''continent'', Some ''Europe'')] firstPage"
  using filteredCacheKey_same_properties_same_order
          [of "[(''continent'', Some ''Europe''), (''search'', None)]"
              "[(''region'', None), (''continent'', Some ''Europe'')]"
              "controllerPagination None (Some 20)" firstPage]
  by (simp add: controllerPagination_def firstPage_def)

text \<open>
  Claim C4 as stated fails: two filter objects with the same value for every property,
  set in a different order, give different keys, and so do two page requests with the
  same \<open>page\<close> and \<open>limit\<close>, set in a different order.
\<close>

theorem filteredCacheKey_order_counterexample:
  "getProp continentThenSearch ''continent'' = getProp searchThenContinent ''continent'' \<and>
   getProp continentThenSearch ''region'' = getProp searchThenContinent ''region'' \<and>
   getProp continentThenSearch ''search'' = getProp searchThenContinent ''search'' \<and>
   set continentThenSearch = set searchThenContinent \<and>
   filteredCacheKey continentThenSearch firstPage \<noteq>
   filteredCacheKey searchThenContinent firstPage \<and>
   page firstPage = page firstPageLimitFirst \<and>
   limit firstPage = limit firstPageLimitFirst \<and>
   filteredCacheKey continentThenSearch firstPage \<noteq>
   filteredCacheKey continentThenSearch firstPageLimitFirst"
proof -
  have "filteredCacheKey continentThenSearch firstPage \<noteq>
        filteredCacheKey searchThenContinent firstPage"
    by code_simp
  moreover have "filteredCacheKey continentThenSearch firstPage \<noteq>
        filteredCacheKey continentThenSearch firstPageLimitFirst"
    by code_simp
  ultimately show ?thesis
    by (auto simp add: getProp_def continentThenSearch_def searchThenContinent_def
          firstPage_def firstPageLimitFirst_def)
qed

subsection \<open>Reads while the store is disconnected\<close>

lemma getCountryByCode_disconnected:
  "\<not> isDbConnected s \<Longrightarrow>
     getCountryByCode s c =
       ((case cacheEntries s (codeCacheKey c) of
           Some (v, ttl) \<Rightarrow> Inr v
         | None \<Rightarrow> (case getFallbackCountryByCode c of
                      Inl e \<Rightarrow> Inl e
                    | Inr country \<Rightarrow> Inr (JCountry country))),
        s\<lparr>cacheCalls := cacheCalls s @ [CacheGet (codeCacheKey c)]\<rparr>)"
  by (auto simp add: getCountryByCode_def cache_get_def Let_def split: option.splits sum.splits)

lemma getContinents_disconnected:
  "\<not> isDbConnected s \<Longrightarrow>
     getContinents s now =
       (Inr (case cacheEntries s CONTINENTS of
               Some (v, ttl) \<Rightarrow>
                 \<lparr>success = True, message = ''Continents retrieved successfully'',
                  timestamp = now, data = v\<rparr>
             | None \<Rightarrow> getFallbackContinents now),
        s\<lparr>cacheCalls := cacheCalls s @ [CacheGet CONTINENTS]\<rparr>)"
  by (auto simp add: getContinents_def cache_get_def split: option.splits)

text \<open>
  Claim C6, as the code has it. While the store is disconnected, none of the three
  reads calls \<^verbatim>\<open>set\<close>: the entries of the cache are as before. \<^verbatim>\<open>getCountries\<close>
  makes no call to the cache and answers from the fallback table.
  \<^verbatim>\<open>getCountryByCode\<close> and \<^verbatim>\<open>getContinents\<close> make one call, a \<^verbatim>\<open>get\<close>; they answer
  with the cached value when there is one, and from the fallback table when there is
  none.
\<close>

theorem disconnected_reads_never_set:
  assumes "\<not> isDbConnected s"
  shows "getCountries s now filters pagination =
           (Inr (JPage (getFallbackCountries now filters pagination)), s) \<and>
         getCountryByCode s c =
           ((case cacheEntries s (codeCacheKey c) of
               Some (v, ttl) \<Rightarrow> Inr v
             | None \<Rightarrow> (case getFallbackCountryByCode c of
                          Inl e \<Rightarrow> Inl e
                        | Inr country \<Rightarrow> Inr (JCountry country))),
            s\<lparr>cacheCalls := cacheCalls s @ [CacheGet (codeCacheKey c)]\<rparr>) \<and>
         getContinents s now =
           (Inr (case cacheEntries s CONTINENTS of
                   Some (v, ttl) \<Rightarrow>
                     \<lparr>success = True, message = ''Continents retrieved successfully'',
                      timestamp = now, data = v\<rparr>
                 | None \<Rightarrow> getFallbackContinents now),
            s\<lparr>cacheCalls := cacheCalls s @ [CacheGet CONTINENTS]\<rparr>) \<and>
         cacheEntries (snd (getCountries s now filters pagination)) = cacheEntries s \<and>
         cacheEntries (snd (getCountryByCode s c)) = cacheEntries s \<and>
         cacheEntries (snd (getContinents s now)) = cacheEntries s"
  using assms
  by (simp add: getCountries_disconnected getCountryByCode_disconnected
        getContinents_disconnected)

theorem disconnected_reads_never_set_witness:
  "\<not> isDbConnected offlineCachedCode \<and>
   getCountries offlineCachedCode exampleNow [] firstPage =
     (Inr (JPage (getFallbackCountries exampleNow [] firstPage)), offlineCachedCode) \<and>
   cacheEntries (snd (getCountryByCode offlineCachedCode ''us'')) =
     cacheEntries offlineCachedCode \<and>
   cacheCalls (snd (getCountryByCode offlineCachedCode ''us'')) =
     [CacheGet (codeCacheKey ''us'')] \<and>
   cacheEntries (snd (getContinents offlineCachedCode exampleNow)) =
     cacheEntries offlineCachedCode \<and>
   cacheCalls (snd (getContinents offlineCachedCode exampleNow)) = [CacheGet CONTINENTS]"
  using disconnected_reads_never_set [of offlineCachedCode exampleNow "[]" firstPage "''us''"]
  by (simp add: offlineCachedCode_def)

text \<open>
  Claim C6 as stated fails: with the store disconnected and a record cached under a
  per-code key, \<^verbatim>\<open>getCountryByCode\<close> answers with the cached record, here one that
  the fallback table does not have.
\<close>

theorem disconnected_answer_counterexample:
  "\<not> isDbConnected offlineCachedCode \<and>
   fst (getCountryByCode offlineCachedCode ''ng'') = Inr (JCountry nigeria) \<and>
   nigeria \<notin> set getFallbackCountryData \<and>
   getFallbackCountryByCode ''ng'' = Inl (NotFoundException (notFoundMessage ''ng''))"
proof -
  have k: "codeCacheKey ''ng'' = codeCacheKey ''NG''"
    by code_simp
  have "cacheEntries offlineCachedCode (codeCacheKey ''ng'') = Some (JCountry nigeria, CACHE_TTL)"
    unfolding k by (simp add: offlineCachedCode_def)
  then have "fst (getCountryByCode offlineCachedCode ''ng'') = Inr (JCountry nigeria)"
    by (simp add: getCountryByCode_def cache_get_def)
  moreover have "nigeria \<notin> set getFallbackCountryData"
    by (simp add: nigeria_def getFallbackCountryData_def)
  moreover have "getFallbackCountryByCode ''ng'' = Inl (NotFoundException (notFoundMessage ''ng''))"
    by code_simp
  ultimately show ?thesis
    by (simp add: offlineCachedCode_def)
qed


subsection \<open>Continent summaries of the fallback table\<close>

lemma map_of_replace:
  "map_of (map (\<lambda>(k', v'). if k' = k then (k', v) else (k', v')) m) x =
     (if x = k \<and> k \<in> fst ` set m then Some v else map_of m x)"
proof (induction m arbitrary: x)
  case Nil
  show ?case by simp
next
  case (Cons a m)
  obtain k' v' where a: "a = (k', v')" by (cases a)
  show ?case
    unfolding a by (cases "k' = k"; cases "x = k"; simp add: Cons.IH)
qed

lemma map_of_Map_set: "map_of (Map_set m k v) = (map_of m)(k \<mapsto> v)"
proof (cases "k \<in> fst ` set m")
  case True
  then show ?thesis by (simp add: Map_set_def fun_eq_iff map_of_replace)
next
  case False
  then have "map_of m k = None" by (simp add: map_of_eq_None_iff)
  with False show ?thesis
    by (auto simp add: Map_set_def fun_eq_iff map_add_def split: option.splits)
qed

lemma keys_Map_set:
  "map fst (Map_set m k v) = (if k \<in> fst ` set m then map fst m else map fst m @ [k])"
proof -
  have "map fst (map (\<lambda>(k', v'). if k' = k then (k', v) else (k', v')) m) = map fst m"
    by (induction m) auto
  then show ?thesis by (simp add: Map_set_def)
qed

lemma distinct_countContinent:
  "distinct (map fst m) \<Longrightarrow> distinct (map fst (countContinent r m))"
  by (simp add: countContinent_def keys_Map_set)

lemma distinct_fold_countContinent:
  "distinct (map fst m) \<Longrightarrow> distinct (map fst (fold countContinent cs m))"
  by (induction cs arbitrary: m) (simp_all add: distinct_countContinent)

lemma map_of_countContinent:
  "map_of (countContinent r m) c =
     (if continent r = c then Some ((case map_of m c of None \<Rightarrow> 0 | Some n \<Rightarrow> n) + 1)
      else map_of m c)"
  by (simp add: countContinent_def map_of_Map_set)

lemma filter_continent_empty:
  "c \<notin> continent ` set cs \<Longrightarrow> filter (\<lambda>r. continent r = c) cs = []"
  by (induction cs) auto

lemma map_of_fold_countContinent:
  "map_of (fold countContinent cs m) c =
     (if c \<in> continent ` set cs
      then Some ((case map_of m c of None \<Rightarrow> 0 | Some n \<Rightarrow> n) +
                 int (length (filter (\<lambda>r. continent r = c) cs)))
      else map_of m c)"
proof (induction cs arbitrary: m)
  case Nil
  show ?case by simp
next
  case (Cons r cs)
  show ?case
  proof (cases "continent r = c")
    case True
    then show ?thesis
      by (cases "c \<in> continent ` set cs")
         (simp_all add: Cons.IH map_of_countContinent filter_continent_empty)
  next
    case False
    then show ?thesis
      by (simp add: Cons.IH map_of_countContinent)
  qed
qed

text \<open>For every table, the summaries are in ascending order of the continent names,
  name each continent of the table once, and give with it the number of the table's
  records on that continent.\<close>

lemma continentSummaries_sorted: "sorted (map continentName (continentSummaries cs))"
  by (simp add: continentSummaries_def)

lemma continentSummaries_set:
  "set (continentSummaries cs) =
     (\<lambda>c. \<lparr>continentName = c,
            countryCount = int (length (filter (\<lambda>r. continent r = c) cs))\<rparr>)
       ` continent ` set cs"
proof -
  let ?m = "fold countContinent cs []"
  have d: "distinct (map fst ?m)"
    by (rule distinct_fold_countContinent) simp
  have "set ?m = {(k, v). map_of ?m k = Some v}"
    using d by auto
  also have "\<dots> =
      (\<lambda>c. (c, int (length (filter (\<lambda>r. continent r = c) cs)))) ` continent ` set cs"
    by (auto simp add: map_of_fold_countContinent split: if_splits)
  finally have
    "set ?m = (\<lambda>c. (c, int (length (filter (\<lambda>r. continent r = c) cs)))) ` continent ` set cs" .
  then show ?thesis
    by (simp add: continentSummaries_def image_image)
qed

lemma names_of_entries:
  "map continentName (map (\<lambda>(n, c). \<lparr>continentName = n, countryCount = c\<rparr>) m) = map fst m"
  by (induction m) auto

lemma continentSummaries_distinct: "distinct (map continentName (continentSummaries cs))"
proof -
  let ?m = "fold countContinent cs []"
  let ?e = "map (\<lambda>(n, c). \<lparr>continentName = n, countryCount = c\<rparr>) ?m"
  have "distinct (map fst ?m)"
    by (rule distinct_fold_countContinent) simp
  then have e: "distinct (map continentName ?e)"
    by (simp only: names_of_entries)
  have "set (sort_key continentName ?e) = set ?e"
    by simp
  then have "set (map continentName (sort_key continentName ?e)) = set (map continentName ?e)"
    by (simp only: set_map)
  moreover have
    "length (map continentName (sort_key continentName ?e)) = length (map continentName ?e)"
    by simp
  ultimately have
    "distinct (map continentName (sort_key continentName ?e)) = distinct (map continentName ?e)"
    by (metis card_distinct distinct_card)
  with e show ?thesis
    by (simp only: continentSummaries_def)
qed

lemma continentSummaries_seed:
  "continentSummaries getFallbackCountryData =
     [\<lparr>continentName = ''Asia'', countryCount = 1\<rparr>,
      \<lparr>continentName = ''Europe'', countryCount = 3\<rparr>,
      \<lparr>continentName = ''North America'', countryCount = 2\<rparr>,
      \<lparr>continentName = ''Oceania'', countryCount = 1\<rparr>]"
  by (simp add: continentSummaries_def getFallbackCountryData_def countContinent_def Map_set_def)

text \<open>
  Claim C3, as the code has it. With the store disconnected and no summaries cached,
  \<^verbatim>\<open>getContinents\<close> makes one \<^verbatim>\<open>get\<close> and returns the fallback table grouped by
  continent, counted, and sorted by continent name. For the table in the source that
  is Asia with 1, Europe with 3, North America with 2 and Oceania with 1 record.
\<close>

theorem getContinents_fallback_seed:
  assumes "\<not> isDbConnected s" and "cacheEntries s CONTINENTS = None"
  shows "getContinents s now =
           (Inr \<lparr>success = True,
                 message = ''Continents retrieved successfully (fallback data)'',
                 timestamp = now,
                 data = JContinents
                   [\<lparr>continentName = ''Asia'', countryCount = 1\<rparr>,
                    \<lparr>continentName = ''Europe'', countryCount = 3\<rparr>,
                    \<lparr>continentName = ''North America'', countryCount = 2\<rparr>,
                    \<lparr>continentName = ''Oceania'', countryCount = 1\<rparr>]\<rparr>,
            s\<lparr>cacheCalls := cacheCalls s @ [CacheGet CONTINENTS]\<rparr>) \<and>
         data (getFallbackContinents now) =
           JContinents (continentSummaries getFallbackCountryData) \<and>
         sorted (map continentName (continentSummaries getFallbackCountryData)) \<and>
         distinct (map continentName (continentSummaries getFallbackCountryData)) \<and>
         set (continentSummaries getFallbackCountryData) =
           (\<lambda>c. \<lparr>continentName = c,
                  countryCount =
                    int (length (filter (\<lambda>r. continent r = c) getFallbackCountryData))\<rparr>)
             ` continent ` set getFallbackCountryData"
proof -
  have "getContinents s now =
          (Inr (getFallbackContinents now), s\<lparr>cacheCalls := cacheCalls s @ [CacheGet CONTINENTS]\<rparr>)"
    using assms by (simp add: getContinents_def cache_get_def)
  moreover have "data (getFallbackContinents now) =
      JContinents (continentSummaries getFallbackCountryData)"
    by (simp add: getFallbackContinents_def)
  ultimately show ?thesis
    using continentSummaries_sorted [of getFallbackCountryData]
      continentSummaries_distinct [of getFallbackCountryData]
      continentSummaries_set [of getFallbackCountryData]
    by (simp add: getFallbackContinents_def continentSummaries_seed)
qed

theorem getContinents_fallback_seed_witness:
  "\<not> isDbConnected offlineEmpty \<and> cacheEntries offlineEmpty CONTINENTS = None \<and>
   fst (getContinents offlineEmpty exampleNow) =
     Inr \<lparr>success = True,
          message = ''Continents retrieved successfully (fallback data)'',
          timestamp = exampleNow,
          data = JContinents
            [\<lparr>continentName = ''Asia'', countryCount = 1\<rparr>,
             \<lparr>continentName = ''Europe'', countryCount = 3\<rparr>,
             \<lparr>continentName = ''North America'', countryCount = 2\<rparr>,
             \<lparr>continentName = ''Oceania'', countryCount = 1\<rparr>]\<rparr>"
  using getContinents_fallback_seed [of offlineEmpty exampleNow]
  by (simp add: offlineEmpty_def)

text \<open>
  Claim C3 as stated fails on its example: for the table in the source the list does
  not begin with Europe counted once and North America counted once.
\<close>

theorem getContinents_example_counterexample:
  "\<not> isDbConnected offlineEmpty \<and> cacheEntries offlineEmpty CONTINENTS = None \<and>
   fst (getContinents offlineEmpty exampleNow) = Inr (getFallbackContinents exampleNow) \<and>
   data (getFallbackContinents exampleNow) =
     JContinents (continentSummaries getFallbackCountryData) \<and>
   take 2 (continentSummaries getFallbackCountryData) \<noteq>
     [\<lparr>continentName = ''Europe'', countryCount = 1\<rparr>,
      \<lparr>continentName = ''North America'', countryCount = 1\<rparr>]"
  by (simp add: getContinents_def cache_get_def offlineEmpty_def getFallbackContinents_def
        continentSummaries_seed)



subsection \<open>Lookup by code\<close>

lemma dataset_update [simp]:
  "dataset (s\<lparr>cacheCalls := calls\<rparr>) = dataset s"
  "dataset (s\<lparr>cacheEntries := entries\<rparr>) = dataset s"
  by (simp_all add: dataset_def)

text \<open>Both paths search their table with the same test: the store compares the
  upper-cased code case-insensitively, the fallback path compares lower-cased strings.\<close>

lemma findFirst_matchesCode:
  "prisma_findFirst_byCode s (toUpperCase c) = find (matchesCode c) (countryTable s)"
  by (simp add: prisma_findFirst_byCode_def equals_insensitive_def matchesCode_def [abs_def]
        toLowerCase_toUpperCase)

lemma getFallbackCountryByCode_matchesCode:
  "getFallbackCountryByCode c =
     (case find (matchesCode c) getFallbackCountryData of
        None \<Rightarrow> Inl (NotFoundException (notFoundMessage c))
      | Some country \<Rightarrow> Inr country)"
  by (simp add: getFallbackCountryByCode_def matchesCode_def [abs_def])

lemma getCountryByCode_hit:
  "cacheEntries s (codeCacheKey c) = Some (v, ttl) \<Longrightarrow>
     getCountryByCode s c =
       (Inr v, s\<lparr>cacheCalls := cacheCalls s @ [CacheGet (codeCacheKey c)]\<rparr>)"
  by (simp add: getCountryByCode_def cache_get_def)

lemma getCountryByCode_miss:
  "cacheEntries s (codeCacheKey c) = None \<Longrightarrow>
     getCountryByCode s c =
       (case find (matchesCode c) (dataset s) of
          None \<Rightarrow> (Inl (NotFoundException (notFoundMessage c)),
                   s\<lparr>cacheCalls := cacheCalls s @ [CacheGet (codeCacheKey c)]\<rparr>)
        | Some r \<Rightarrow>
            (Inr (JCountry r),
             if isDbConnected s
             then s\<lparr>cacheEntries := (cacheEntries s)(codeCacheKey c \<mapsto> (JCountry r, CACHE_TTL)),
                    cacheCalls := cacheCalls s @
                      [CacheGet (codeCacheKey c),
                       CacheSet (codeCacheKey c) (JCountry r) CACHE_TTL]\<rparr>
             else s\<lparr>cacheCalls := cacheCalls s @ [CacheGet (codeCacheKey c)]\<rparr>))"
  by (simp add: getCountryByCode_def cache_get_def cache_set_def Let_def findFirst_matchesCode
        getFallbackCountryByCode_matchesCode dataset_def transformToDto_id split: option.splits)

lemma cache_entry_cases:
  obtains (miss) "cacheEntries s k = None"
  | (hit) v ttl where "cacheEntries s k = Some (v, ttl)"
  by (cases "cacheEntries s k") auto

lemma find_unique:
  assumes "r \<in> set xs" and "P r" and "\<And>r'. r' \<in> set xs \<Longrightarrow> P r' \<Longrightarrow> r' = r"
  shows "find P xs = Some r"
proof (cases "find P xs")
  case None
  then have "\<not> P r" using assms(1) by (simp add: find_None_iff)
  with assms(2) show ?thesis by simp
next
  case (Some r')
  then have "r' \<in> set xs" and "P r'"
    by (auto simp add: find_Some_iff)
  then have "r' = r" by (rule assms(3))
  with Some show ?thesis by simp
qed

lemma matchesCode_unique:
  assumes "uniqueCodes rows" and "r \<in> set rows" and "r' \<in> set rows"
    and "matchesCode c r" and "matchesCode c r'"
  shows "r' = r"
proof -
  let ?c2 = "\<lambda>r. toLowerCase (code r)" and ?c3 = "\<lambda>r. toLowerCase (code3 r)"
  from assms(1) have
    i2: "inj_on ?c2 (set rows)" and
    i3: "inj_on ?c3 (set rows)" and
    d: "?c2 ` set rows \<inter> ?c3 ` set rows = {}"
    by (simp_all add: uniqueCodes_def distinct_map)
  from assms(4,5) consider
      "?c2 r' = ?c2 r" | "?c3 r' = ?c3 r" | "?c2 r' = ?c3 r" | "?c3 r' = ?c2 r"
    unfolding matchesCode_def by metis
  then show ?thesis
  proof cases
    case 1
    then show ?thesis using i2 assms(2,3) by (simp add: inj_on_def)
  next
    case 2
    then show ?thesis using i3 assms(2,3) by (simp add: inj_on_def)
  next
    case 3
    then have "?c2 r' \<in> ?c2 ` set rows \<inter> ?c3 ` set rows"
      using assms(2,3) by (metis (mono_tags, lifting) IntI imageI)
    with d show ?thesis by simp
  next
    case 4
    then have "?c2 r \<in> ?c2 ` set rows \<inter> ?c3 ` set rows"
      using assms(2,3) by (metis (mono_tags, lifting) IntI imageI)
    with d show ?thesis by simp
  qed
qed

lemma codeCacheKey_eq_iff:
  "codeCacheKey c' = codeCacheKey c \<longleftrightarrow> toLowerCase c' = toLowerCase c"
  by (simp add: codeCacheKey_def toUpperCase_eq_iff)

lemma matchesCode_same_casing:
  "toLowerCase c' = toLowerCase c \<Longrightarrow> matchesCode c' = matchesCode c"
  by (simp add: matchesCode_def [abs_def])

text \<open>The fallback table has unique codes of ASCII characters.\<close>

lemma uniqueCodes_fallback: "uniqueCodes getFallbackCountryData"
  by code_simp

lemma asciiCodes_fallback: "asciiCodes getFallbackCountryData"
  by code_simp

lemma codeEntryCoherent_miss:
  "cacheEntries s (codeCacheKey c) = None \<Longrightarrow> codeEntryCoherent s c"
  by (simp add: codeEntryCoherent_def)

text \<open>With the dataset as it is, \<^verbatim>\<open>getCountryByCode\<close> does not make the cache stale:
  the entry it writes is the record of the dataset that the code matches.\<close>

lemma dataset_getCountryByCode [simp]:
  "dataset (snd (getCountryByCode s c)) = dataset s"
proof (cases s "codeCacheKey c" rule: cache_entry_cases)
  case miss
  then show ?thesis
    by (cases "find (matchesCode c) (dataset s)") (simp_all add: getCountryByCode_miss)
next
  case (hit v ttl)
  then show ?thesis by (simp add: getCountryByCode_hit)
qed

lemma cacheEntries_getCountryByCode:
  "cacheEntries (snd (getCountryByCode s c)) =
     (case cacheEntries s (codeCacheKey c) of
        Some e \<Rightarrow> cacheEntries s
      | None \<Rightarrow>
          (case find (matchesCode c) (dataset s) of
             None \<Rightarrow> cacheEntries s
           | Some r \<Rightarrow>
               if isDbConnected s
               then (cacheEntries s)(codeCacheKey c \<mapsto> (JCountry r, CACHE_TTL))
               else cacheEntries s))"
proof (cases s "codeCacheKey c" rule: cache_entry_cases)
  case miss
  then show ?thesis
    by (cases "find (matchesCode c) (dataset s)") (simp_all add: getCountryByCode_miss)
next
  case (hit v ttl)
  then show ?thesis by (simp add: getCountryByCode_hit)
qed

lemma cacheEntries_getCountryByCode_cases:
  "cacheEntries (snd (getCountryByCode s c)) = cacheEntries s \<or>
   (\<exists>r. find (matchesCode c) (dataset s) = Some r \<and>
        cacheEntries (snd (getCountryByCode s c)) =
          (cacheEntries s)(codeCacheKey c \<mapsto> (JCountry r, CACHE_TTL)))"
  by (simp add: cacheEntries_getCountryByCode split: option.splits)

lemma codeEntryCoherent_getCountryByCode:
  assumes "codeEntryCoherent s c'"
  shows "codeEntryCoherent (snd (getCountryByCode s c)) c'"
proof -
  let ?s' = "snd (getCountryByCode s c)"
  from cacheEntries_getCountryByCode_cases [of s c] show ?thesis
  proof (elim disjE exE conjE)
    assume "cacheEntries ?s' = cacheEntries s"
    then show ?thesis
      using assms by (auto simp add: codeEntryCoherent_def split: option.splits)
  next
    fix r
    assume f: "find (matchesCode c) (dataset s) = Some r"
      and u: "cacheEntries ?s' = (cacheEntries s)(codeCacheKey c \<mapsto> (JCountry r, CACHE_TTL))"
    from f have r: "r \<in> set (dataset s)" "matchesCode c r"
      by (auto simp add: find_Some_iff)
    show ?thesis
    proof (cases "codeCacheKey c' = codeCacheKey c")
      case True
      then have "toLowerCase c' = toLowerCase c"
        by (simp add: codeCacheKey_eq_iff)
      with r(2) have "matchesCode c' r"
        by (simp add: matchesCode_def)
      with r(1) True show ?thesis
        by (auto simp add: codeEntryCoherent_def u list_ex_iff)
    next
      case False
      then have "cacheEntries ?s' (codeCacheKey c') = cacheEntries s (codeCacheKey c')"
        by (simp add: u)
      then show ?thesis
        using assms by (auto simp add: codeEntryCoherent_def split: option.splits)
    qed
  qed
qed

text \<open>
  Claim C7, as the code has it, for codes of ASCII characters. \<^verbatim>\<open>getCountryByCode\<close>
  is insensitive to case: two casings of one code give the same record, whatever the
  cache holds. It is insensitive to which code field matches as far as the cache is not
  stale: for a record \<open>r\<close> of a dataset with unique codes and a code \<open>c\<close> that is
  the two-letter or the three-letter code of \<open>r\<close> in any casing, it returns \<open>r\<close>
  whenever the cache has, under the key of \<open>c\<close>, no entry or a record of the dataset
  that \<open>c\<close> matches; this holds on a hit and on a miss, with the store connected or
  not.
\<close>

theorem getCountryByCode_same_record_unless_stale:
  assumes "asciiString c" and "asciiString c'" and "asciiCodes (dataset s)"
  shows "(toLowerCase c' = toLowerCase c \<longrightarrow>
            (fst (getCountryByCode s c') = Inr v) = (fst (getCountryByCode s c) = Inr v)) \<and>
         (uniqueCodes (dataset s) \<and> codeEntryCoherent s c \<and>
          r \<in> set (dataset s) \<and> matchesCode c r \<longrightarrow>
            fst (getCountryByCode s c) = Inr (JCountry r))"
proof (intro conjI impI)
  assume same: "toLowerCase c' = toLowerCase c"
  then have k: "codeCacheKey c' = codeCacheKey c"
    by (simp add: codeCacheKey_eq_iff)
  have m: "matchesCode c' = matchesCode c"
    using same by (rule matchesCode_same_casing)
  show "(fst (getCountryByCode s c') = Inr v) = (fst (getCountryByCode s c) = Inr v)"
  proof (cases s "codeCacheKey c" rule: cache_entry_cases)
    case (hit w ttl)
    then show ?thesis
      using k by (simp add: getCountryByCode_hit)
  next
    case miss
    then have miss': "cacheEntries s (codeCacheKey c') = None"
      using k by simp
    show ?thesis
      by (cases "find (matchesCode c) (dataset s)")
         (simp_all add: getCountryByCode_miss [OF miss] getCountryByCode_miss [OF miss'] m)
  qed
next
  assume a: "uniqueCodes (dataset s) \<and> codeEntryCoherent s c \<and>
             r \<in> set (dataset s) \<and> matchesCode c r"
  then have u: "uniqueCodes (dataset s)" and coh: "codeEntryCoherent s c"
    and r: "r \<in> set (dataset s)" and mr: "matchesCode c r"
    by simp_all
  show "fst (getCountryByCode s c) = Inr (JCountry r)"
  proof (cases s "codeCacheKey c" rule: cache_entry_cases)
    case (hit w ttl)
    then obtain r' where "r' \<in> set (dataset s)" "w = JCountry r'" "matchesCode c r'"
      using coh by (auto simp add: codeEntryCoherent_def list_ex_iff)
    then have "w = JCountry r"
      using matchesCode_unique [OF u r _ mr, of r'] by simp
    then show ?thesis using hit by (simp add: getCountryByCode_hit)
  next
    case miss
    have "find (matchesCode c) (dataset s) = Some r"
    proof (rule find_unique)
      show "r \<in> set (dataset s)" by (rule r)
      show "matchesCode c r" by (rule mr)
      show "r' = r" if "r' \<in> set (dataset s)" "matchesCode c r'" for r'
        using that by (rule matchesCode_unique [OF u r _ mr])
    qed
    then show ?thesis using miss by (simp add: getCountryByCode_miss)
  qed
qed

theorem getCountryByCode_same_record_unless_stale_witness:
  "asciiString ''us'' \<and> asciiString ''US'' \<and> asciiString ''USA'' \<and>
   asciiCodes (dataset offlineEmpty) \<and> uniqueCodes (dataset offlineEmpty) \<and>
   toLowerCase ''US'' = toLowerCase ''us'' \<and>
   codeEntryCoherent offlineEmpty ''us'' \<and> codeEntryCoherent offlineEmpty ''USA'' \<and>
   unitedStates \<in> set (dataset offlineEmpty) \<and>
   matchesCode ''us'' unitedStates \<and> matchesCode ''USA'' unitedStates \<and>
   fst (getCountryByCode offlineEmpty ''us'') = Inr (JCountry unitedStates) \<and>
   fst (getCountryByCode offlineEmpty ''US'') = Inr (JCountry unitedStates) \<and>
   fst (getCountryByCode offlineEmpty ''USA'') = Inr (JCountry unitedStates) \<and>
   asciiString ''nGa'' \<and> asciiString ''ng'' \<and>
   asciiCodes (dataset onlineEmpty) \<and> uniqueCodes (dataset onlineEmpty) \<and>
   codeEntryCoherent onlineEmpty ''nGa'' \<and>
   nigeria \<in> set (dataset onlineEmpty) \<and> matchesCode ''nGa'' nigeria \<and>
   fst (getCountryByCode onlineEmpty ''nGa'') = Inr (JCountry nigeria) \<and>
   cacheEntries (snd (getCountryByCode onlineEmpty ''nGa'')) (codeCacheKey ''NGA'') \<noteq> None \<and>
   codeEntryCoherent (snd (getCountryByCode onlineEmpty ''nGa'')) ''NGA'' \<and>
   fst (getCountryByCode (snd (getCountryByCode onlineEmpty ''nGa'')) ''NGA'') =
     Inr (JCountry nigeria)"
proof -
  let ?s1 = "snd (getCountryByCode onlineEmpty ''nGa'')"
  have d0: "dataset offlineEmpty = getFallbackCountryData"
    by (simp add: dataset_def offlineEmpty_def)
  have d1: "dataset onlineEmpty = nigeria # getFallbackCountryData"
    by (simp add: dataset_def onlineEmpty_def)
  have a: "asciiString ''us''" "asciiString ''US''" "asciiString ''USA''"
    "asciiString ''nGa''" "asciiString ''ng''" "asciiString ''NGA''"
    by code_simp+
  have a0: "asciiCodes (dataset offlineEmpty)"
    unfolding d0 by (rule asciiCodes_fallback)
  have a1: "asciiCodes (dataset onlineEmpty)"
    unfolding d1 by code_simp
  have u0: "uniqueCodes (dataset offlineEmpty)"
    unfolding d0 by (rule uniqueCodes_fallback)
  have u1: "uniqueCodes (dataset onlineEmpty)"
    unfolding d1 by code_simp
  have e0: "cacheEntries offlineEmpty k = None" for k
    by (simp add: offlineEmpty_def)
  have e1: "cacheEntries onlineEmpty k = None" for k
    by (simp add: onlineEmpty_def)
  have c0: "codeEntryCoherent offlineEmpty k" for k
    by (rule codeEntryCoherent_miss) (rule e0)
  have c1: "codeEntryCoherent onlineEmpty k" for k
    by (rule codeEntryCoherent_miss) (rule e1)
  have m0: "unitedStates \<in> set (dataset offlineEmpty)"
    unfolding d0 by (simp add: unitedStates_def getFallbackCountryData_def)
  have m1: "nigeria \<in> set (dataset onlineEmpty)"
    unfolding d1 by simp
  have lo: "toLowerCase ''US'' = toLowerCase ''us''" "toLowerCase ''nGa'' = toLowerCase ''NGA''"
    by code_simp+
  have us: "matchesCode ''us'' unitedStates" "matchesCode ''USA'' unitedStates"
    by code_simp+
  have ng: "matchesCode ''nGa'' nigeria" "matchesCode ''NGA'' nigeria"
    by code_simp+
  have first: "fst (getCountryByCode onlineEmpty ''nGa'') = Inr (JCountry nigeria)"
    using getCountryByCode_same_record_unless_stale
            [OF a(4) a(4) a1, of "JCountry nigeria" nigeria] u1 c1 m1 ng(1)
    by simp
  have f1: "find (matchesCode ''nGa'') (dataset onlineEmpty) = Some nigeria"
    using first by (simp add: getCountryByCode_miss [OF e1] split: option.splits)
  have k: "codeCacheKey ''NGA'' = codeCacheKey ''nGa''"
    using lo(2) by (simp add: codeCacheKey_eq_iff)
  have en: "cacheEntries ?s1 (codeCacheKey ''NGA'') = Some (JCountry nigeria, CACHE_TTL)"
    using f1 by (simp add: cacheEntries_getCountryByCode e1 k onlineEmpty_def)
  have c2: "codeEntryCoherent ?s1 ''NGA''"
    by (rule codeEntryCoherent_getCountryByCode) (rule c1)
  have d2: "dataset ?s1 = dataset onlineEmpty"
    by simp
  show ?thesis
    using a a0 a1 u0 u1 c0 c1 m0 m1 lo(1) us ng first en c2
      getCountryByCode_same_record_unless_stale
        [OF a(1) a(2) a0, of "JCountry unitedStates" unitedStates]
      getCountryByCode_same_record_unless_stale
        [OF a(3) a(3) a0, of "JCountry unitedStates" unitedStates]
      getCountryByCode_same_record_unless_stale
        [OF a(6) a(6), of ?s1 "JCountry nigeria" nigeria]
    by (simp add: d2)
qed

text \<open>
  Claim C7 as stated fails: with the store disconnected and a row of the United States
  cached under the key of the two-letter code that is not the record of the fallback
  table, the two-letter code returns the cached row and the three-letter code the
  record of the fallback table.
\<close>

theorem getCountryByCode_stale_counterexample:
  "uniqueCodes (dataset offlineStaleCode) \<and>
   unitedStates \<in> set (dataset offlineStaleCode) \<and>
   matchesCode ''us'' unitedStates \<and> matchesCode ''USA'' unitedStates \<and>
   fst (getCountryByCode offlineStaleCode ''us'') = Inr (JCountry unitedStatesStored) \<and>
   fst (getCountryByCode offlineStaleCode ''USA'') = Inr (JCountry unitedStates) \<and>
   unitedStatesStored \<noteq> unitedStates"
proof -
  have d: "dataset offlineStaleCode = getFallbackCountryData"
    by (simp add: dataset_def offlineStaleCode_def)
  have k2: "codeCacheKey ''us'' = codeCacheKey ''US''"
    and k3: "codeCacheKey ''USA'' \<noteq> codeCacheKey ''US''"
    by code_simp+
  have hit: "cacheEntries offlineStaleCode (codeCacheKey ''us'') =
      Some (JCountry unitedStatesStored, CACHE_TTL)"
    unfolding k2 by (simp add: offlineStaleCode_def)
  have miss: "cacheEntries offlineStaleCode (codeCacheKey ''USA'') = None"
    using k3 by (simp add: offlineStaleCode_def)
  have us: "matchesCode ''us'' unitedStates" "matchesCode ''USA'' unitedStates"
    by code_simp+
  have m: "unitedStates \<in> set getFallbackCountryData"
    by (simp add: unitedStates_def getFallbackCountryData_def)
  have "find (matchesCode ''USA'') getFallbackCountryData = Some unitedStates"
  proof (rule find_unique)
    show "unitedStates \<in> set getFallbackCountryData" by (rule m)
    show "matchesCode ''USA'' unitedStates" by (rule us(2))
    show "r' = unitedStates"
      if "r' \<in> set getFallbackCountryData" "matchesCode ''USA'' r'" for r'
      using that by (rule matchesCode_unique [OF uniqueCodes_fallback m _ us(2)])
  qed
  then have "fst (getCountryByCode offlineStaleCode ''USA'') = Inr (JCountry unitedStates)"
    by (simp add: getCountryByCode_miss [OF miss] d)
  moreover have "fst (getCountryByCode offlineStaleCode ''us'') = Inr (JCountry unitedStatesStored)"
    by (simp add: getCountryByCode_hit [OF hit])
  moreover have "unitedStatesStored \<noteq> unitedStates"
    by (simp add: unitedStatesStored_def unitedStates_def getFallbackCountryData_def)
  ultimately show ?thesis
    using us m uniqueCodes_fallback by (simp add: d)
qed

text \<open>
  Claim C8, as the code has it, for codes of ASCII characters. \<^verbatim>\<open>getCountryByCode\<close>
  fails exactly when the cache has no entry under the key of the given code and no
  record of the dataset (the table of the store when it is connected, the fallback
  table when it is not) has a two-letter or three-letter code equal to the given code up
  to case; it fails with the \<^verbatim>\<open>NotFoundException\<close> then. With an entry under the key
  it returns the entry and does not look at the dataset.
\<close>

theorem getCountryByCode_NotFound_iff_miss_and_no_match:
  assumes "asciiString c" and "asciiCodes (dataset s)"
  shows "(fst (getCountryByCode s c) = Inl (NotFoundException (notFoundMessage c))) =
           (cacheEntries s (codeCacheKey c) = None \<and>
            \<not> (\<exists>r\<in>set (dataset s). matchesCode c r)) \<and>
         (\<exists>e. fst (getCountryByCode s c) = Inl e) =
           (cacheEntries s (codeCacheKey c) = None \<and>
            \<not> (\<exists>r\<in>set (dataset s). matchesCode c r)) \<and>
         (\<forall>v ttl. cacheEntries s (codeCacheKey c) = Some (v, ttl) \<longrightarrow>
            fst (getCountryByCode s c) = Inr v)"
proof (cases s "codeCacheKey c" rule: cache_entry_cases)
  case (hit v ttl)
  then show ?thesis by (simp add: getCountryByCode_hit)
next
  case miss
  show ?thesis
  proof (cases "find (matchesCode c) (dataset s)")
    case None
    then have "\<not> (\<exists>r\<in>set (dataset s). matchesCode c r)"
      by (simp add: find_None_iff)
    then show ?thesis using miss None by (simp add: getCountryByCode_miss)
  next
    case (Some r)
    then have "r \<in> set (dataset s)" "matchesCode c r"
      by (auto simp add: find_Some_iff)
    then have "\<exists>r\<in>set (dataset s). matchesCode c r" by blast
    then show ?thesis using miss Some by (simp add: getCountryByCode_miss)
  qed
qed

theorem getCountryByCode_NotFound_iff_miss_and_no_match_witness:
  "asciiString ''ZZZZZ'' \<and> asciiString ''nga'' \<and>
   asciiCodes (dataset offlineEmpty) \<and> asciiCodes (dataset onlineEmpty) \<and>
   asciiCodes (dataset offlineCachedCode) \<and>
   cacheEntries offlineEmpty (codeCacheKey ''ZZZZZ'') = None \<and>
   cacheEntries onlineEmpty (codeCacheKey ''ZZZZZ'') = None \<and>
   cacheEntries offlineCachedCode (codeCacheKey ''ZZZZZ'') = None \<and>
   \<not> (\<exists>r\<in>set (dataset offlineEmpty). matchesCode ''ZZZZZ'' r) \<and>
   \<not> (\<exists>r\<in>set (dataset onlineEmpty). matchesCode ''ZZZZZ'' r) \<and>
   fst (getCountryByCode offlineEmpty ''ZZZZZ'') =
     Inl (NotFoundException (notFoundMessage ''ZZZZZ'')) \<and>
   fst (getCountryByCode onlineEmpty ''ZZZZZ'') =
     Inl (NotFoundException (notFoundMessage ''ZZZZZ'')) \<and>
   fst (getCountryByCode offlineCachedCode ''ZZZZZ'') =
     Inl (NotFoundException (notFoundMessage ''ZZZZZ'')) \<and>
   (\<exists>r\<in>set (dataset onlineEmpty). matchesCode ''nga'' r) \<and>
   fst (getCountryByCode onlineEmpty ''nga'') \<noteq>
     Inl (NotFoundException (notFoundMessage ''nga''))"
proof -
  have d0: "dataset offlineEmpty = getFallbackCountryData"
    by (simp add: dataset_def offlineEmpty_def)
  have d1: "dataset onlineEmpty = nigeria # getFallbackCountryData"
    by (simp add: dataset_def onlineEmpty_def)
  have d2: "dataset offlineCachedCode = getFallbackCountryData"
    by (simp add: dataset_def offlineCachedCode_def)
  have a: "asciiString ''ZZZZZ''" "asciiString ''nga''"
    by code_simp+
  have a0: "asciiCodes (dataset offlineEmpty)"
    unfolding d0 by (rule asciiCodes_fallback)
  have a1: "asciiCodes (dataset onlineEmpty)"
    unfolding d1 by code_simp
  have a2: "asciiCodes (dataset offlineCachedCode)"
    unfolding d2 by (rule asciiCodes_fallback)
  have k: "codeCacheKey ''ZZZZZ'' \<noteq> codeCacheKey ''NG''"
    by code_simp
  have e0: "cacheEntries offlineEmpty (codeCacheKey ''ZZZZZ'') = None"
    by (simp add: offlineEmpty_def)
  have e1: "cacheEntries onlineEmpty k = None" for k
    by (simp add: onlineEmpty_def)
  have e2: "cacheEntries offlineCachedCode (codeCacheKey ''ZZZZZ'') = None"
    using k by (simp add: offlineCachedCode_def)
  have n0: "\<not> (\<exists>r\<in>set getFallbackCountryData. matchesCode ''ZZZZZ'' r)"
    by code_simp
  have n1: "\<not> (\<exists>r\<in>set (nigeria # getFallbackCountryData). matchesCode ''ZZZZZ'' r)"
    by code_simp
  have y1: "\<exists>r\<in>set (nigeria # getFallbackCountryData). matchesCode ''nga'' r"
    by code_simp
  show ?thesis
    using a a0 a1 a2 e0 e1 e2 n0 n1 y1
      getCountryByCode_NotFound_iff_miss_and_no_match [OF a(1) a0]
      getCountryByCode_NotFound_iff_miss_and_no_match [OF a(1) a1]
      getCountryByCode_NotFound_iff_miss_and_no_match [OF a(1) a2]
      getCountryByCode_NotFound_iff_miss_and_no_match [OF a(2) a1]
    by (simp add: d0 d1 d2)
qed

text \<open>
  Claim C8 as stated fails: with the store disconnected and the row of Nigeria cached
  under its per-code key, no record of the fallback table matches the code, and yet
  \<^verbatim>\<open>getCountryByCode\<close> does not fail; it returns the cached row.
\<close>

theorem getCountryByCode_NotFound_counterexample:
  "\<not> isDbConnected offlineCachedCode \<and>
   filter (matchesCode ''ng'') (dataset offlineCachedCode) = [] \<and>
   fst (getCountryByCode offlineCachedCode ''ng'') = Inr (JCountry nigeria) \<and>
   fst (getCountryByCode offlineCachedCode ''ng'') \<noteq>
     Inl (NotFoundException (notFoundMessage ''ng''))"
proof -
  have d: "dataset offlineCachedCode = getFallbackCountryData"
    by (simp add: dataset_def offlineCachedCode_def)
  have k: "codeCacheKey ''ng'' = codeCacheKey ''NG''"
    by code_simp
  have hit: "cacheEntries offlineCachedCode (codeCacheKey ''ng'') =
      Some (JCountry nigeria, CACHE_TTL)"
    unfolding k by (simp add: offlineCachedCode_def)
  have "filter (matchesCode ''ng'') getFallbackCountryData = []"
    by code_simp
  then have "filter (matchesCode ''ng'') (dataset offlineCachedCode) = []"
    by (simp only: d)
  moreover have "fst (getCountryByCode offlineCachedCode ''ng'') = Inr (JCountry nigeria)"
    by (simp add: getCountryByCode_hit [OF hit])
  moreover have "\<not> isDbConnected offlineCachedCode"
    by (simp add: offlineCachedCode_def)
  ultimately show ?thesis
    by simp
qed


end
